theory Spec2Isabelle
  imports Main
begin

section \<open>Job table\<close>

text \<open>
  The shell \<^verbatim>\<open>sh.c\<close> includes \<^verbatim>\<open>jobs.h\<close> and calls \<^verbatim>\<open>add_job\<close>, \<^verbatim>\<open>remove_job_pid\<close>,
  \<^verbatim>\<open>remove_job_jid\<close>, \<^verbatim>\<open>update_job_pid\<close>, \<^verbatim>\<open>get_job_pid\<close> and \<^verbatim>\<open>get_job_jid\<close>; their
  implementation is not part of the sources. The definitions of this section follow
  section 4.1 of the specification (JobTable); the integer return conventions
  (0 on success, -1 on failure or "not found") are the ones \<^verbatim>\<open>sh.c\<close> tests for.
\<close>

datatype process_state_t = RUNNING | STOPPED

record job =
  job_jid :: int
  job_pid :: int
  job_state :: process_state_t
  job_command :: string

text \<open>Modelled from the spec: the job list type of \<^verbatim>\<open>jobs.h\<close>, a bounded table.
  The capacity is "a fixed maximum concurrent job count" whose value the specification
  does not give, so it is a field.\<close>

record job_list_t =
  jobs :: "job list"
  max_jobs :: nat

text \<open>Modelled from the spec: \<^verbatim>\<open>get_job_pid\<close> (find by job id), -1 when absent.\<close>

definition get_job_pid :: "job_list_t \<Rightarrow> int \<Rightarrow> int" where
  "get_job_pid jl jid =
     (case find (\<lambda>j. job_jid j = jid) (jobs jl) of None \<Rightarrow> - 1 | Some j \<Rightarrow> job_pid j)"

text \<open>Modelled from the spec: \<^verbatim>\<open>get_job_jid\<close> (find by pid), -1 when absent.\<close>

definition get_job_jid :: "job_list_t \<Rightarrow> int \<Rightarrow> int" where
  "get_job_jid jl pid =
     (case find (\<lambda>j. job_pid j = pid) (jobs jl) of None \<Rightarrow> - 1 | Some j \<Rightarrow> job_jid j)"

text \<open>Modelled from the spec: \<^verbatim>\<open>add_job\<close>, which "fails if pid or job_id already
  present, or if the table is at capacity" and otherwise inserts the entry.\<close>

definition add_job ::
  "job_list_t \<Rightarrow> int \<Rightarrow> int \<Rightarrow> process_state_t \<Rightarrow> string \<Rightarrow> int \<times> job_list_t" where
  "add_job jl jid pid st cmd =
     (if list_ex (\<lambda>j. job_pid j = pid \<or> job_jid j = jid) (jobs jl)
         \<or> max_jobs jl \<le> length (jobs jl)
      then (- 1, jl)
      else (0, jl\<lparr>jobs := jobs jl @
              [\<lparr>job_jid = jid, job_pid = pid, job_state = st, job_command = cmd\<rparr>]\<rparr>))"

text \<open>Modelled from the spec: \<^verbatim>\<open>update_job_pid\<close> (set_state), which "fails if pid not
  tracked" and otherwise stores the given state.\<close>

definition update_job_pid ::
  "job_list_t \<Rightarrow> int \<Rightarrow> process_state_t \<Rightarrow> int \<times> job_list_t" where
  "update_job_pid jl pid st =
     (if list_ex (\<lambda>j. job_pid j = pid) (jobs jl)
      then (0, jl\<lparr>jobs := map (\<lambda>j. if job_pid j = pid then j\<lparr>job_state := st\<rparr> else j)
                               (jobs jl)\<rparr>)
      else (- 1, jl))"

text \<open>Modelled from the spec: \<^verbatim>\<open>remove_job_pid\<close> and \<^verbatim>\<open>remove_job_jid\<close>, "idempotent
  no-op if absent".\<close>

definition remove_job_pid :: "job_list_t \<Rightarrow> int \<Rightarrow> int \<times> job_list_t" where
  "remove_job_pid jl pid =
     (if list_ex (\<lambda>j. job_pid j = pid) (jobs jl)
      then (0, jl\<lparr>jobs := filter (\<lambda>j. job_pid j \<noteq> pid) (jobs jl)\<rparr>)
      else (- 1, jl))"

definition remove_job_jid :: "job_list_t \<Rightarrow> int \<Rightarrow> int \<times> job_list_t" where
  "remove_job_jid jl jid =
     (if list_ex (\<lambda>j. job_jid j = jid) (jobs jl)
      then (0, jl\<lparr>jobs := filter (\<lambda>j. job_jid j \<noteq> jid) (jobs jl)\<rparr>)
      else (- 1, jl))"

section \<open>Shell state and the operating system\<close>

text \<open>
  The value of a C \<^verbatim>\<open>int\<close> after an arithmetic operation whose exact result is \<open>x\<close>:
  two's complement on 32 bits, so the successor of \<open>2147483647\<close> is \<open>-2147483648\<close>.
\<close>

definition int32 :: "int \<Rightarrow> int" where
  "int32 x = (x + 2147483648) mod 4294967296 - 2147483648"


text \<open>
  The wait status the kernel stores through \<^verbatim>\<open>waitpid\<close>'s second argument. The
  macros \<^verbatim>\<open>WIFEXITED\<close>, \<^verbatim>\<open>WIFSIGNALED\<close>, \<^verbatim>\<open>WIFSTOPPED\<close> and \<^verbatim>\<open>WIFCONTINUED\<close> are
  mutually exclusive on such a status, so it is a datatype whose constructors carry
  what \<^verbatim>\<open>WEXITSTATUS\<close>, \<^verbatim>\<open>WTERMSIG\<close> and \<^verbatim>\<open>WSTOPSIG\<close> read.
\<close>

datatype wstatus = WExited int | WSignaled int | WStopped int | WContinued

fun WIFSTOPPED :: "wstatus \<Rightarrow> bool" where
  "WIFSTOPPED (WStopped sg) = True"
| "WIFSTOPPED st = False"

text \<open>The system calls of the job-control code, logged in the order the shell makes
  them: \<^verbatim>\<open>tcsetpgrp(STDIN_FILENO, pgid)\<close>, \<^verbatim>\<open>kill(pid, sig)\<close> and the blocking
  \<^verbatim>\<open>waitpid(pid, &status, WUNTRACED)\<close>.\<close>

datatype syscall = Tcsetpgrp int | Kill int int | Waitpid int

text \<open>What is written to standard error: a line of an \<^verbatim>\<open>fprintf(stderr, ...)\<close>
  (without its final newline), or a \<^verbatim>\<open>perror(tag)\<close>, whose text depends on errno.\<close>

datatype err_out = Line string | Perror string

text \<open>
  The file-scope variables of \<^verbatim>\<open>sh.c\<close> (\<^verbatim>\<open>job_list\<close>, \<^verbatim>\<open>fg_pid\<close>, \<^verbatim>\<open>next_jid\<close>,
  \<^verbatim>\<open>foreground_job_id\<close>) together with the part of the world the code acts on: the
  shell's own process group (what \<^verbatim>\<open>getpgrp()\<close> returns), the foreground process
  group of the terminal as set by the shell's successful \<^verbatim>\<open>tcsetpgrp\<close> calls, the
  log of system calls, and the lines printed on standard output and standard error.
  A forked child sets the terminal's group for itself as well; that call belongs to
  another process and is not followed here. The C \<^verbatim>\<open>int\<close> and \<^verbatim>\<open>pid_t\<close> values are
  integers; the only arithmetic on them is \<^verbatim>\<open>next_jid++\<close>, which is taken on 32 bits
  (\<open>int32\<close> above): after \<open>2147483647\<close> the counter is \<open>-2147483648\<close>.
\<close>

record shell =
  job_list :: job_list_t
  fg_pid :: int
  next_jid :: int
  foreground_job_id :: int
  shell_pgid :: int
  tty_pgrp :: int
  syscalls :: "syscall list"
  stdout :: "string list"
  stderr :: "err_out list"

text \<open>
  The outcome of each system call of one command, given by the environment:
  whether the \<^verbatim>\<open>tcsetpgrp\<close> that hands the terminal to a job succeeds, whether the
  \<^verbatim>\<open>tcsetpgrp\<close> that hands it back to the shell succeeds, whether \<^verbatim>\<open>kill\<close>
  succeeds, what the blocking \<^verbatim>\<open>waitpid\<close> returns (\<open>None\<close> is -1), what \<^verbatim>\<open>fork\<close>
  returns in the parent (\<open>None\<close> is -1, otherwise the child's pid), whether the
  parent's \<^verbatim>\<open>setpgid\<close> fails with an errno other than EACCES, and whether the
  reaper's last \<^verbatim>\<open>waitpid\<close> fails with an errno other than ECHILD. The last field
  is what \<^verbatim>\<open>handle_builtin\<close> returns for a command other than \<^verbatim>\<open>fg\<close> and
  \<^verbatim>\<open>bg\<close> (0 when the command is not a built-in).
\<close>

record sys_env =
  give_ok :: bool
  take_ok :: bool
  kill_ok :: bool
  waitpid_ret :: "wstatus option"
  fork_ret :: "int option"
  setpgid_err :: bool
  reap_err :: bool
  other_builtin :: int

text \<open>The signal number of \<^verbatim>\<open>SIGCONT\<close> on Linux.\<close>

definition SIGCONT :: int where
  "SIGCONT = 18"

definition perror :: "string \<Rightarrow> shell \<Rightarrow> shell" where
  "perror tag s = s\<lparr>stderr := stderr s @ [Perror tag]\<rparr>"

definition eprint :: "string \<Rightarrow> shell \<Rightarrow> shell" where
  "eprint l s = s\<lparr>stderr := stderr s @ [Line l]\<rparr>"

definition oprint :: "string \<Rightarrow> shell \<Rightarrow> shell" where
  "oprint l s = s\<lparr>stdout := stdout s @ [l]\<rparr>"

definition sys_tcsetpgrp :: "bool \<Rightarrow> int \<Rightarrow> shell \<Rightarrow> int \<times> shell" where
  "sys_tcsetpgrp ok pgid s =
     (let s1 = s\<lparr>syscalls := syscalls s @ [Tcsetpgrp pgid]\<rparr>
      in if ok then (0, s1\<lparr>tty_pgrp := pgid\<rparr>) else (- 1, s1))"

definition sys_kill :: "bool \<Rightarrow> int \<Rightarrow> int \<Rightarrow> shell \<Rightarrow> int \<times> shell" where
  "sys_kill ok pid sg s =
     (if ok then 0 else - 1, s\<lparr>syscalls := syscalls s @ [Kill pid sg]\<rparr>)"

definition sys_waitpid :: "wstatus option \<Rightarrow> int \<Rightarrow> shell \<Rightarrow> wstatus option \<times> shell" where
  "sys_waitpid r pid s = (r, s\<lparr>syscalls := syscalls s @ [Waitpid pid]\<rparr>)"

section \<open>Formatting\<close>

text \<open>\<^verbatim>\<open>%d\<close> of \<^verbatim>\<open>printf\<close>: the decimal digits, with a minus sign for a negative
  number.\<close>

fun digits_of :: "nat \<Rightarrow> string" where
  "digits_of n =
     (if n < 10 then [char_of (48 + n)]
      else digits_of (n div 10) @ [char_of (48 + n mod 10)])"

declare digits_of.simps [simp del]

definition fmt_d :: "int \<Rightarrow> string" where
  "fmt_d i = (if i < 0 then CHR ''-'' # digits_of (nat (- i)) else digits_of (nat i))"

definition msg_exited :: "int \<Rightarrow> int \<Rightarrow> int \<Rightarrow> string" where
  "msg_exited jid pid code =
     ''['' @ fmt_d jid @ ''] ('' @ fmt_d pid @ '') terminated with exit status '' @ fmt_d code"

definition msg_signaled :: "int \<Rightarrow> int \<Rightarrow> int \<Rightarrow> string" where
  "msg_signaled jid pid sg =
     ''['' @ fmt_d jid @ ''] ('' @ fmt_d pid @ '') terminated by signal '' @ fmt_d sg"

definition msg_signaled_nojid :: "int \<Rightarrow> int \<Rightarrow> string" where
  "msg_signaled_nojid pid sg = ''('' @ fmt_d pid @ '') terminated by signal '' @ fmt_d sg"

definition msg_suspended :: "int \<Rightarrow> int \<Rightarrow> int \<Rightarrow> string" where
  "msg_suspended jid pid sg =
     ''['' @ fmt_d jid @ ''] ('' @ fmt_d pid @ '') suspended by signal '' @ fmt_d sg"

definition msg_resumed :: "int \<Rightarrow> int \<Rightarrow> string" where
  "msg_resumed jid pid = ''['' @ fmt_d jid @ ''] ('' @ fmt_d pid @ '') resumed''"

definition msg_background :: "int \<Rightarrow> int \<Rightarrow> string" where
  "msg_background jid pid = ''['' @ fmt_d jid @ ''] ('' @ fmt_d pid @ '')''"

section \<open>Job-control helpers of the shell\<close>

text \<open>
  \<^verbatim>\<open>get_job_info\<close>: looks the pid up, stores RUNNING, then tries to store STOPPED and
  reports STOPPED when that store succeeds (storing RUNNING again), RUNNING otherwise.
  The result is \<open>None\<close> for the return value -1 and \<open>Some (pid, state)\<close> for 0 with
  the two out-parameters. The null checks of the first line always pass in \<^verbatim>\<open>sh.c\<close>
  (the list is allocated before the loop, the pointers are addresses of locals).
\<close>

definition get_job_info ::
  "job_list_t \<Rightarrow> int \<Rightarrow> (int \<times> process_state_t) option \<times> job_list_t" where
  "get_job_info jl jid =
     (let pid = get_job_pid jl jid in
      if pid = - 1 then (None, jl)
      else
        (case update_job_pid jl pid RUNNING of (r1, jl1) \<Rightarrow>
           if r1 = - 1 then (None, jl1)
           else
             (case update_job_pid jl1 pid STOPPED of (r2, jl2) \<Rightarrow>
                if r2 \<noteq> - 1
                then (Some (pid, STOPPED), snd (update_job_pid jl2 pid RUNNING))
                else (Some (pid, RUNNING), jl2))))"

text \<open>Direct inspection of the stored state, as the specification describes the
  lookup (find_by_job_id): the state of the entry, and no change to the table.\<close>

definition get_job_info_spec ::
  "job_list_t \<Rightarrow> int \<Rightarrow> (int \<times> process_state_t) option \<times> job_list_t" where
  "get_job_info_spec jl jid =
     (case find (\<lambda>j. job_jid j = jid) (jobs jl) of
        None \<Rightarrow> (None, jl)
      | Some j \<Rightarrow> (Some (job_pid j, job_state j), jl))"

definition send_signal_to_job :: "sys_env \<Rightarrow> int \<Rightarrow> int \<Rightarrow> shell \<Rightarrow> int \<times> shell" where
  "send_signal_to_job e pid sg s =
     (if pid \<le> 0 then (- 1, s)
      else
        (case sys_kill (kill_ok e) (- pid) sg s of (r, s1) \<Rightarrow>
           if r < 0 then (- 1, perror ''kill'' s1) else (0, s1)))"

definition give_terminal_to :: "sys_env \<Rightarrow> int \<Rightarrow> shell \<Rightarrow> int \<times> shell" where
  "give_terminal_to e pgid s =
     (if pgid \<le> 0 then (- 1, s)
      else
        (case sys_tcsetpgrp (give_ok e) pgid s of (r, s1) \<Rightarrow>
           if r < 0 then (- 1, perror ''tcsetpgrp'' s1) else (0, s1)))"

definition take_terminal_control :: "sys_env \<Rightarrow> shell \<Rightarrow> int \<times> shell" where
  "take_terminal_control e s =
     (if shell_pgid s < 0 then (- 1, perror ''getpgrp'' s)
      else
        (case sys_tcsetpgrp (take_ok e) (shell_pgid s) s of (r, s1) \<Rightarrow>
           if r < 0 then (- 1, perror ''tcsetpgrp'' s1) else (0, s1)))"

text \<open>\<^verbatim>\<open>wait_for_job\<close>: \<open>None\<close> is the return value -1; \<open>Some (r, status)\<close> is the
  return value \<open>r\<close> (1 if stopped, 0 otherwise) with the status stored.\<close>

definition wait_for_job :: "sys_env \<Rightarrow> int \<Rightarrow> shell \<Rightarrow> (int \<times> wstatus) option \<times> shell" where
  "wait_for_job e pid s =
     (if pid \<le> 0 then (None, s)
      else
        (case sys_waitpid (waitpid_ret e) pid s of
           (None, s1) \<Rightarrow> (None, perror ''waitpid'' s1)
         | (Some status, s1) \<Rightarrow> (Some (if WIFSTOPPED status then 1 else 0, status), s1)))"

section \<open>The built-ins \<^verbatim>\<open>fg\<close> and \<^verbatim>\<open>bg\<close>\<close>

datatype command_type = CMD_REGULAR | CMD_FG | CMD_BG | CMD_JOBS

text \<open>The fields of \<^verbatim>\<open>struct parse_result\<close> that the parent shell reads; the
  redirection fields are read by the forked child only.\<close>

record parse_result =
  command_path :: "string option"
  argv :: "string list"
  background :: bool
  cmd_type :: command_type
  job_id :: int

text \<open>
  The \<^verbatim>\<open>CMD_FG\<close> arm of \<^verbatim>\<open>handle_builtin\<close>, entered with the pid that
  \<^verbatim>\<open>get_job_info\<close> stored. The condition
  \<^verbatim>\<open>give_terminal_to(pid) < 0 || send_signal_to_job(pid, SIGCONT) < 0\<close> sends the
  signal only when the terminal was granted.
\<close>

definition fg_status :: "int \<Rightarrow> int \<Rightarrow> int \<Rightarrow> wstatus \<Rightarrow> shell \<Rightarrow> shell" where
  "fg_status jid pid wait_result status s =
     (case status of
        WStopped sg \<Rightarrow>
          if wait_result = 1
          then (let s1 = oprint (msg_suspended jid pid sg) s
                in s1\<lparr>job_list := snd (update_job_pid (job_list s1) pid STOPPED)\<rparr>)
          else s\<lparr>job_list := snd (remove_job_jid (job_list s) jid)\<rparr>
      | WSignaled sg \<Rightarrow>
          (let s1 = oprint (msg_signaled_nojid pid sg) s
           in s1\<lparr>job_list := snd (remove_job_jid (job_list s1) jid)\<rparr>)
      | WExited code \<Rightarrow> s\<lparr>job_list := snd (remove_job_jid (job_list s) jid)\<rparr>
      | WContinued \<Rightarrow> s\<lparr>job_list := snd (remove_job_jid (job_list s) jid)\<rparr>)"

definition builtin_fg :: "sys_env \<Rightarrow> int \<Rightarrow> int \<Rightarrow> shell \<Rightarrow> int \<times> shell" where
  "builtin_fg e jid pid s =
     (case give_terminal_to e pid s of (g, s1) \<Rightarrow>
        if g < 0 then (- 1, snd (take_terminal_control e s1))
        else
          (case send_signal_to_job e pid SIGCONT s1 of (k, s2) \<Rightarrow>
             if k < 0 then (- 1, snd (take_terminal_control e s2))
             else
               (let s3 = s2\<lparr>fg_pid := pid, foreground_job_id := jid\<rparr>;
                    s4 = s3\<lparr>job_list := snd (update_job_pid (job_list s3) pid RUNNING)\<rparr>
                in case wait_for_job e pid s4 of
                     (None, s5) \<Rightarrow> (- 1, snd (take_terminal_control e s5))
                   | (Some (wait_result, status), s5) \<Rightarrow>
                       (let s6 = fg_status jid pid wait_result status s5;
                            s7 = s6\<lparr>fg_pid := - 1, foreground_job_id := - 1\<rparr>
                        in case take_terminal_control e s7 of (t, s8) \<Rightarrow>
                             (if t = 0 then 1 else - 1, s8)))))"

text \<open>The \<^verbatim>\<open>CMD_BG\<close> arm, entered with the pid and the state that \<^verbatim>\<open>get_job_info\<close>
  stored.\<close>

definition builtin_bg :: "sys_env \<Rightarrow> int \<Rightarrow> process_state_t \<Rightarrow> shell \<Rightarrow> int \<times> shell" where
  "builtin_bg e pid state s =
     (if state \<noteq> STOPPED then (- 1, eprint ''ERROR: Job is already running'' s)
      else
        (case send_signal_to_job e pid SIGCONT s of (k, s1) \<Rightarrow>
           if k < 0 then (- 1, s1)
           else (1, s1\<lparr>job_list := snd (update_job_pid (job_list s1) pid RUNNING)\<rparr>)))"

text \<open>
  \<^verbatim>\<open>handle_builtin\<close> up to the end of its job-control block. The result is
  \<open>Some (r, s')\<close> when the function returns \<open>r\<close> from that part, and \<open>None\<close> when
  control goes on to the other built-ins (\<^verbatim>\<open>exit\<close>, \<^verbatim>\<open>jobs\<close>, \<^verbatim>\<open>cd\<close>, \<^verbatim>\<open>ln\<close>,
  \<^verbatim>\<open>rm\<close>), which are outside this development.
\<close>

definition handle_builtin :: "sys_env \<Rightarrow> parse_result \<Rightarrow> shell \<Rightarrow> (int \<times> shell) option" where
  "handle_builtin e r s =
     (if command_path r = None \<or> argv r = [] then Some (- 1, s)
      else if cmd_type r = CMD_FG \<or> cmd_type r = CMD_BG then
        (case get_job_info (job_list s) (job_id r) of
           (None, jl) \<Rightarrow> Some (- 1, eprint ''ERROR: No such job'' (s\<lparr>job_list := jl\<rparr>))
         | (Some (pid, state), jl) \<Rightarrow>
             if cmd_type r = CMD_FG
             then Some (builtin_fg e (job_id r) pid (s\<lparr>job_list := jl\<rparr>))
             else Some (builtin_bg e pid state (s\<lparr>job_list := jl\<rparr>)))
      else None)"

section \<open>The reaper\<close>

text \<open>
  The body of the loop of \<^verbatim>\<open>reap_background_processes\<close> for one child that the
  non-blocking \<^verbatim>\<open>waitpid(-1, &status, WNOHANG | WUNTRACED | WCONTINUED)\<close> returned.
  \<open>None\<close> is the \<^verbatim>\<open>continue\<close> of the first test (the event is skipped and
  \<^verbatim>\<open>reaped\<close> is not set); \<open>Some s'\<close> is the state at the end of the body.
\<close>

definition reap_event :: "int \<Rightarrow> wstatus \<Rightarrow> shell \<Rightarrow> shell option" where
  "reap_event pid status s =
     (let jid = get_job_jid (job_list s) pid in
      if jid = - 1 \<and> pid \<noteq> fg_pid s then None
      else Some
        (case status of
           WExited code \<Rightarrow>
             if jid > 0
             then (let s1 = oprint (msg_exited jid pid code) s
                   in s1\<lparr>job_list := snd (remove_job_pid (job_list s1) pid)\<rparr>)
             else s
         | WSignaled sg \<Rightarrow>
             if jid > 0
             then (let s1 = oprint (msg_signaled jid pid sg) s
                   in s1\<lparr>job_list := snd (remove_job_pid (job_list s1) pid)\<rparr>)
             else oprint (msg_signaled_nojid pid sg) s
         | WStopped sg \<Rightarrow>
             if jid = - 1
             then
               (case add_job (job_list s) (next_jid s) pid STOPPED
                       (if fg_pid s = pid then ''fg_command'' else ''bg_command'') of
                  (r, jl) \<Rightarrow>
                    if r = 0
                    then oprint (msg_suspended (next_jid s) pid sg)
                           (s\<lparr>job_list := jl, next_jid := int32 (next_jid s + 1)\<rparr>)
                    else eprint ''Error: Failed to add job to job list'' (s\<lparr>job_list := jl\<rparr>))
             else
               oprint (msg_suspended jid pid sg)
                 (s\<lparr>job_list := snd (update_job_pid (job_list s) pid STOPPED)\<rparr>)
         | WContinued \<Rightarrow>
             if jid > 0
             then oprint (msg_resumed jid pid)
                    (s\<lparr>job_list := snd (update_job_pid (job_list s) pid RUNNING)\<rparr>)
             else s))"

text \<open>The loop: the list holds what the successive \<^verbatim>\<open>waitpid\<close> calls return; the
  loop ends at the first return value that is not positive, or when the list is used
  up (no child has changed state).\<close>

fun reap_loop :: "(int \<times> wstatus) list \<Rightarrow> int \<Rightarrow> shell \<Rightarrow> int \<times> shell" where
  "reap_loop [] reaped s = (reaped, s)"
| "reap_loop ((pid, status) # evs) reaped s =
     (if pid > 0
      then (case reap_event pid status s of
              None \<Rightarrow> reap_loop evs reaped s
            | Some s1 \<Rightarrow> reap_loop evs 1 s1)
      else (reaped, s))"

definition reap_background_processes ::
  "sys_env \<Rightarrow> (int \<times> wstatus) list \<Rightarrow> shell \<Rightarrow> int \<times> shell" where
  "reap_background_processes e evs s =
     (case reap_loop evs 0 s of (reaped, s1) \<Rightarrow>
        (reaped, if reap_err e then perror ''waitpid'' s1 else s1))"

section \<open>The parent side of a launched command\<close>

text \<open>
  The part of the loop of \<^verbatim>\<open>main\<close> after \<^verbatim>\<open>fork\<close>, as the parent runs it (the
  child never comes back to the loop: it calls \<^verbatim>\<open>execv\<close> or \<^verbatim>\<open>exit\<close>).
  \<open>foreground_wait\<close> is the arm for a foreground command, \<open>background_launch\<close> the
  arm for a command that ends in \<^verbatim>\<open>&\<close>.
\<close>

definition foreground_wait :: "sys_env \<Rightarrow> string \<Rightarrow> int \<Rightarrow> shell \<Rightarrow> shell" where
  "foreground_wait e path pid s =
     (let s1 = s\<lparr>fg_pid := pid\<rparr>;
          s2 = (case sys_tcsetpgrp (give_ok e) pid s1 of (r, t) \<Rightarrow>
                  if r < 0 then perror ''tcsetpgrp'' t else t);
          s3 = (case sys_waitpid (waitpid_ret e) pid s2 of
                  (None, t) \<Rightarrow> perror ''waitpid'' t
                | (Some (WStopped sg), t) \<Rightarrow>
                    (case add_job (job_list t) (next_jid t) pid STOPPED path of (r, jl) \<Rightarrow>
                       if r = 0
                       then (oprint (msg_suspended (next_jid t) pid sg) (t\<lparr>job_list := jl\<rparr>))
                              \<lparr>next_jid := int32 (next_jid t + 1)\<rparr>
                       else eprint ''Error: Failed to add job to job list'' (t\<lparr>job_list := jl\<rparr>))
                | (Some (WSignaled sg), t) \<Rightarrow> oprint (msg_signaled_nojid pid sg) t
                | (Some (WExited code), t) \<Rightarrow> t
                | (Some WContinued, t) \<Rightarrow> t);
          s4 = s3\<lparr>fg_pid := - 1\<rparr>
      in case sys_tcsetpgrp (take_ok e) (shell_pgid s4) s4 of (r, t) \<Rightarrow>
           if r < 0 then perror ''tcsetpgrp'' t else t)"

definition background_launch :: "string \<Rightarrow> int \<Rightarrow> shell \<Rightarrow> shell" where
  "background_launch path pid s =
     (case add_job (job_list s) (next_jid s) pid RUNNING path of (r, jl) \<Rightarrow>
        if r = 0
        then (oprint (msg_background (next_jid s) pid) (s\<lparr>job_list := jl\<rparr>))
               \<lparr>next_jid := int32 (next_jid s + 1)\<rparr>
        else eprint ''Error: Failed to add job to job list'' (s\<lparr>job_list := jl\<rparr>))"

definition launch :: "sys_env \<Rightarrow> bool \<Rightarrow> string \<Rightarrow> shell \<Rightarrow> shell" where
  "launch e bg path s =
     (case fork_ret e of
        None \<Rightarrow> perror ''fork'' s
      | Some pid \<Rightarrow>
          (let s1 = (if setpgid_err e then perror ''setpgid'' s else s)
           in if \<not> bg then foreground_wait e path pid s1
              else background_launch path pid s1))"

section \<open>The read-eval loop\<close>

text \<open>
  One command after a successful \<^verbatim>\<open>parse\<close>: \<^verbatim>\<open>handle_builtin\<close>, and the fork when
  it returned 0. The file-system built-ins and \<^verbatim>\<open>jobs\<close> do not write to the job
  table, to \<^verbatim>\<open>fg_pid\<close>, \<^verbatim>\<open>next_jid\<close> or \<^verbatim>\<open>foreground_job_id\<close>, and make no
  terminal or wait call; what they print is not part of the model.
\<close>

definition run_command :: "sys_env \<Rightarrow> parse_result \<Rightarrow> shell \<Rightarrow> shell" where
  "run_command e r s =
     (case handle_builtin e r s of
        Some (builtin_status, s1) \<Rightarrow>
          if builtin_status \<noteq> 0 then s1
          else launch e (background r) (case command_path r of Some p \<Rightarrow> p | None \<Rightarrow> []) s1
      | None \<Rightarrow>
          if other_builtin e \<noteq> 0 then s
          else launch e (background r) (case command_path r of Some p \<Rightarrow> p | None \<Rightarrow> []) s)"

text \<open>One turn of the loop of \<^verbatim>\<open>main\<close>: the reaper, then the line read. The line is
  \<open>None\<close> when it is blank or \<^verbatim>\<open>parse\<close> fails (the loop continues). A session is the
  list of its turns; end of input and \<^verbatim>\<open>exit\<close> end the list.\<close>

definition main_iteration ::
  "sys_env \<Rightarrow> (int \<times> wstatus) list \<Rightarrow> parse_result option \<Rightarrow> shell \<Rightarrow> shell" where
  "main_iteration e evs ln s =
     (case reap_background_processes e evs s of (reaped, s1) \<Rightarrow>
        (case ln of None \<Rightarrow> s1 | Some r \<Rightarrow> run_command e r s1))"

fun main_loop ::
  "(sys_env \<times> (int \<times> wstatus) list \<times> parse_result option) list \<Rightarrow> shell \<Rightarrow> shell" where
  "main_loop [] s = s"
| "main_loop ((e, evs, ln) # turns) s = main_loop turns (main_iteration e evs ln s)"

text \<open>The state when the loop starts: an empty table of the given capacity, no
  foreground job, \<^verbatim>\<open>next_jid = 1\<close>, and the terminal owned by the shell's group.\<close>

definition init_shell :: "nat \<Rightarrow> int \<Rightarrow> shell" where
  "init_shell cap pgid =
     \<lparr>job_list = \<lparr>jobs = [], max_jobs = cap\<rparr>, fg_pid = - 1, next_jid = 1,
      foreground_job_id = - 1, shell_pgid = pgid, tty_pgrp = pgid,
      syscalls = [], stdout = [], stderr = []\<rparr>"

section \<open>Job ids issued\<close>

text \<open>The job ids that are in the table after a step and were not in it before.\<close>

definition new_jids :: "shell \<Rightarrow> shell \<Rightarrow> int list" where
  "new_jids s s' =
     filter (\<lambda>i. \<not> list_ex (\<lambda>j. job_jid j = i) (jobs (job_list s)))
       (map job_jid (jobs (job_list s')))"

text \<open>The job ids issued by the reaper's loop, by one turn of the main loop and by a
  session, in the order of issue. They follow \<open>reap_loop\<close>, \<open>main_iteration\<close> and
  \<open>main_loop\<close> step by step.\<close>

fun issued_reap :: "(int \<times> wstatus) list \<Rightarrow> shell \<Rightarrow> int list" where
  "issued_reap [] s = []"
| "issued_reap ((pid, status) # evs) s =
     (if pid > 0
      then (case reap_event pid status s of
              None \<Rightarrow> issued_reap evs s
            | Some s1 \<Rightarrow> new_jids s s1 @ issued_reap evs s1)
      else [])"

definition issued_iteration ::
  "sys_env \<Rightarrow> (int \<times> wstatus) list \<Rightarrow> parse_result option \<Rightarrow> shell \<Rightarrow> int list" where
  "issued_iteration e evs ln s =
     issued_reap evs s @
     (case ln of
        None \<Rightarrow> []
      | Some r \<Rightarrow>
          (let s1 = snd (reap_background_processes e evs s)
           in new_jids s1 (run_command e r s1)))"

fun issued_jids ::
  "(sys_env \<times> (int \<times> wstatus) list \<times> parse_result option) list \<Rightarrow> shell \<Rightarrow> int list" where
  "issued_jids [] s = []"
| "issued_jids ((e, evs, ln) # turns) s =
     issued_iteration e evs ln s @ issued_jids turns (main_iteration e evs ln s)"

text \<open>Two relations used to follow the ids through a session. \<open>jids_within jl' jl\<close>:
  every job id of the table \<open>jl'\<close> is a job id of \<open>jl\<close>. \<open>jid_step s s'\<close>: the step
  from \<open>s\<close> to \<open>s'\<close> either issues no job id and leaves \<^verbatim>\<open>next_jid\<close> as it is, or
  issues exactly the id \<^verbatim>\<open>next_jid\<close> and increments the counter (\<^verbatim>\<open>next_jid++\<close>).\<close>

definition jids_within :: "job_list_t \<Rightarrow> job_list_t \<Rightarrow> bool" where
  "jids_within jl' jl = list_all (\<lambda>j'. list_ex (\<lambda>j. job_jid j = job_jid j') (jobs jl)) (jobs jl')"

text \<open>The values \<^verbatim>\<open>next_jid\<close> takes under \<open>n\<close> successive \<^verbatim>\<open>next_jid++\<close>, starting
  at \<open>a\<close>.\<close>

fun jid_sequence :: "int \<Rightarrow> nat \<Rightarrow> int list" where
  "jid_sequence a 0 = []"
| "jid_sequence a (Suc n) = a # jid_sequence (int32 (a + 1)) n"

text \<open>\<open>issued_from a xs b\<close>: the ids \<open>xs\<close> are the successive values of the counter
  starting at \<open>a\<close>, one \<^verbatim>\<open>next_jid++\<close> each, and \<open>b\<close> is the counter after them.\<close>

definition issued_from :: "int \<Rightarrow> int list \<Rightarrow> int \<Rightarrow> bool" where
  "issued_from a xs b =
     (xs = jid_sequence a (length xs) \<and> b = ((\<lambda>x. int32 (x + 1)) ^^ length xs) a)"

definition jid_step :: "shell \<Rightarrow> shell \<Rightarrow> bool" where
  "jid_step s s' =
     (next_jid s' = next_jid s \<and> new_jids s s' = []
      \<or> next_jid s' = int32 (next_jid s + 1) \<and> new_jids s s' = [next_jid s])"

section \<open>Example inputs\<close>

text \<open>A shell whose table holds job 1 (pid 100) in the given state, with the
  terminal owned by the shell's group 50; an environment in which every system call
  succeeds and the blocking wait returns the given status; the parsed commands
  \<^verbatim>\<open>fg %n\<close> and \<^verbatim>\<open>bg %n\<close>; and a parsed external command.\<close>

definition ex_shell :: "process_state_t \<Rightarrow> shell" where
  "ex_shell st =
     \<lparr>job_list = \<lparr>jobs = [\<lparr>job_jid = 1, job_pid = 100, job_state = st,
                             job_command = ''/bin/sleep''\<rparr>], max_jobs = 8\<rparr>,
      fg_pid = - 1, next_jid = 2, foreground_job_id = - 1, shell_pgid = 50,
      tty_pgrp = 50, syscalls = [], stdout = [], stderr = []\<rparr>"

definition ex_env :: "wstatus option \<Rightarrow> sys_env" where
  "ex_env w =
     \<lparr>give_ok = True, take_ok = True, kill_ok = True, waitpid_ret = w,
      fork_ret = Some 101, setpgid_err = False, reap_err = False, other_builtin = 0\<rparr>"

definition ex_fg :: "int \<Rightarrow> parse_result" where
  "ex_fg n = \<lparr>command_path = Some ''fg'', argv = [''fg''], background = False,
              cmd_type = CMD_FG, job_id = n\<rparr>"

definition ex_bg :: "int \<Rightarrow> parse_result" where
  "ex_bg n = \<lparr>command_path = Some ''bg'', argv = [''bg''], background = False,
              cmd_type = CMD_BG, job_id = n\<rparr>"

definition ex_cmd :: "bool \<Rightarrow> parse_result" where
  "ex_cmd bg = \<lparr>command_path = Some ''/bin/sleep'', argv = [''sleep'', ''100''],
                background = bg, cmd_type = CMD_REGULAR, job_id = - 1\<rparr>"

text \<open>One turn of a session that keeps one background job alive: the reaper sees that
  the previous child (pid 101) has exited, and the line launches \<^verbatim>\<open>/bin/sleep 100 &\<close>
  again, the fork returning pid 101 once more.\<close>

definition ex_churn :: "sys_env \<times> (int \<times> wstatus) list \<times> parse_result option" where
  "ex_churn = (ex_env None, [(101, WExited 0)], Some (ex_cmd True))"

section \<open>Facts about the job table\<close>

lemma find_None_list_ex: "(find P xs = None) = (\<not> list_ex P xs)"
  by (induction xs) auto

lemma find_Some_mem: "find P xs = Some x \<Longrightarrow> x \<in> set xs \<and> P x"
  by (induction xs) (auto split: if_splits)

lemma get_job_pid_tracked:
  assumes "get_job_pid jl jid \<noteq> - 1"
  shows "list_ex (\<lambda>j. job_pid j = get_job_pid jl jid) (jobs jl)"
proof (cases "find (\<lambda>j. job_jid j = jid) (jobs jl)")
  case None
  with assms show ?thesis by (simp add: get_job_pid_def)
next
  case (Some j)
  then have "j \<in> set (jobs jl)" by (simp add: find_Some_mem)
  moreover have "get_job_pid jl jid = job_pid j" using Some by (simp add: get_job_pid_def)
  ultimately show ?thesis by (auto simp: list_ex_iff)
qed

lemma get_job_pid_absent:
  "\<not> list_ex (\<lambda>j. job_jid j = jid) (jobs jl) \<Longrightarrow> get_job_pid jl jid = - 1"
  using find_None_list_ex[of "\<lambda>j. job_jid j = jid" "jobs jl"] by (simp add: get_job_pid_def)


lemma list_ex_set_state:
  "list_ex (\<lambda>j. job_pid j = p) (map (\<lambda>j. if job_pid j = q then j\<lparr>job_state := st\<rparr> else j) xs)
     = list_ex (\<lambda>j. job_pid j = p) xs"
  by (induction xs) auto

lemma set_state_twice:
  "map (\<lambda>j. if job_pid j = pid then j\<lparr>job_state := b\<rparr> else j)
     (map (\<lambda>j. if job_pid j = pid then j\<lparr>job_state := a\<rparr> else j) xs)
   = map (\<lambda>j. if job_pid j = pid then j\<lparr>job_state := b\<rparr> else j) xs"
  by (induction xs) auto

lemma tracked_after_update:
  "list_ex (\<lambda>j. job_pid j = p) (jobs (snd (update_job_pid jl q st)))
     = list_ex (\<lambda>j. job_pid j = p) (jobs jl)"
  by (simp add: update_job_pid_def list_ex_set_state)

lemma update_job_pid_twice:
  "snd (update_job_pid (snd (update_job_pid jl pid a)) pid b) = snd (update_job_pid jl pid b)"
  by (simp add: update_job_pid_def list_ex_set_state set_state_twice del: map_map)

lemma get_job_info_tracked:
  assumes "get_job_pid jl jid \<noteq> - 1"
  shows "get_job_info jl jid =
           (Some (get_job_pid jl jid, STOPPED), snd (update_job_pid jl (get_job_pid jl jid) RUNNING))"
proof -
  let ?p = "get_job_pid jl jid"
  have t: "list_ex (\<lambda>j. job_pid j = ?p) (jobs jl)" by (rule get_job_pid_tracked[OF assms])
  obtain jl1 where u1: "update_job_pid jl ?p RUNNING = (0, jl1)"
    using t by (simp add: update_job_pid_def)
  have t1: "list_ex (\<lambda>j. job_pid j = ?p) (jobs jl1)"
    using tracked_after_update[of ?p jl ?p RUNNING] t u1 by simp
  obtain jl2 where u2: "update_job_pid jl1 ?p STOPPED = (0, jl2)"
    using t1 by (simp add: update_job_pid_def)
  have "snd (update_job_pid jl2 ?p RUNNING) = snd (update_job_pid jl ?p RUNNING)"
    using update_job_pid_twice[of jl1 ?p STOPPED RUNNING] update_job_pid_twice[of jl ?p RUNNING RUNNING] u1 u2
    by simp
  then show ?thesis
    using assms u1 u2 by (simp add: get_job_info_def)
qed

lemma get_job_info_absent:
  "get_job_pid jl jid = - 1 \<Longrightarrow> get_job_info jl jid = (None, jl)"
  by (simp add: get_job_info_def)





lemma remove_job_jid_absent_after:
  "\<not> list_ex (\<lambda>j. job_jid j = jid) (jobs (snd (remove_job_jid jl jid)))"
  by (auto simp: remove_job_jid_def list_ex_iff)

lemma add_job_failed:
  "fst (add_job jl jid pid st cmd) \<noteq> 0 \<Longrightarrow> add_job jl jid pid st cmd = (- 1, jl)"
  by (simp add: add_job_def split: if_splits)

lemma add_job_added:
  "fst (add_job jl jid pid st cmd) = 0 \<Longrightarrow>
     add_job jl jid pid st cmd =
       (0, jl\<lparr>jobs := jobs jl @ [\<lparr>job_jid = jid, job_pid = pid, job_state = st,
                                   job_command = cmd\<rparr>]\<rparr>)"
  by (simp add: add_job_def split: if_splits)

lemma add_job_result:
  assumes "add_job jl jid pid st cmd = (r, jl')"
  shows "r = - 1 \<and> jl' = jl
       \<or> r = 0 \<and> \<not> list_ex (\<lambda>x. job_jid x = jid) (jobs jl)
          \<and> jl' = jl\<lparr>jobs := jobs jl @ [\<lparr>job_jid = jid, job_pid = pid, job_state = st,
                                           job_command = cmd\<rparr>]\<rparr>"
  using assms by (auto simp: add_job_def list_ex_iff split: if_splits)

section \<open>Facts about the helpers\<close>

lemmas sys_defs = give_terminal_to_def send_signal_to_job_def take_terminal_control_def
  wait_for_job_def sys_tcsetpgrp_def sys_kill_def sys_waitpid_def perror_def eprint_def oprint_def

lemmas ex_defs = ex_shell_def ex_env_def ex_fg_def ex_bg_def ex_cmd_def ex_churn_def

lemma char_of_digit:
  "char_of (48::nat) = CHR ''0''" "char_of (49::nat) = CHR ''1''" "char_of (50::nat) = CHR ''2''"
  "char_of (51::nat) = CHR ''3''" "char_of (52::nat) = CHR ''4''" "char_of (53::nat) = CHR ''5''"
  "char_of (54::nat) = CHR ''6''" "char_of (55::nat) = CHR ''7''" "char_of (56::nat) = CHR ''8''"
  "char_of (57::nat) = CHR ''9''"
  by code_simp+

lemmas fmt_defs = msg_exited_def msg_signaled_def msg_signaled_nojid_def msg_suspended_def
  msg_resumed_def msg_background_def fmt_d_def digits_of.simps char_of_digit

lemma builtin_fg_terminal:
  assumes "0 \<le> shell_pgid s"
  shows "(\<exists>calls. syscalls (snd (builtin_fg e jid pid s)) = syscalls s @ calls @ [Tcsetpgrp (shell_pgid s)])
     \<and> shell_pgid (snd (builtin_fg e jid pid s)) = shell_pgid s
     \<and> (take_ok e \<longrightarrow> tty_pgrp (snd (builtin_fg e jid pid s)) = shell_pgid s)"
  using assms
  by (auto simp: builtin_fg_def fg_status_def sys_defs Let_def split: prod.splits option.splits wstatus.splits if_splits)

lemma foreground_wait_terminal:
  "(\<exists>calls. syscalls (foreground_wait e path pid s) = syscalls s @ calls @ [Tcsetpgrp (shell_pgid s)])
     \<and> shell_pgid (foreground_wait e path pid s) = shell_pgid s
     \<and> (take_ok e \<longrightarrow> tty_pgrp (foreground_wait e path pid s) = shell_pgid s)"
  by (auto simp: foreground_wait_def sys_defs Let_def split: prod.splits option.splits wstatus.splits if_splits)

lemma handle_builtin_fg_tracked:
  assumes "command_path r \<noteq> None" and "argv r \<noteq> []" and "cmd_type r = CMD_FG"
    and "get_job_pid (job_list s) (job_id r) \<noteq> - 1"
  shows "handle_builtin e r s =
           Some (builtin_fg e (job_id r) (get_job_pid (job_list s) (job_id r))
                   (s\<lparr>job_list := snd (update_job_pid (job_list s)
                                         (get_job_pid (job_list s) (job_id r)) RUNNING)\<rparr>))"
  using assms by (auto simp: handle_builtin_def get_job_info_tracked)

lemma handle_builtin_bg_tracked:
  assumes "command_path r \<noteq> None" and "argv r \<noteq> []" and "cmd_type r = CMD_BG"
    and "get_job_pid (job_list s) (job_id r) \<noteq> - 1"
  shows "handle_builtin e r s =
           Some (builtin_bg e (get_job_pid (job_list s) (job_id r)) STOPPED
                   (s\<lparr>job_list := snd (update_job_pid (job_list s)
                                         (get_job_pid (job_list s) (job_id r)) RUNNING)\<rparr>))"
  using assms by (auto simp: handle_builtin_def get_job_info_tracked)

lemma fg_status_signaled:
  "fg_status jid pid w (WSignaled sg) s =
     s\<lparr>stdout := stdout s @ [msg_signaled_nojid pid sg],
       job_list := snd (remove_job_jid (job_list s) jid)\<rparr>"
  by (simp add: fg_status_def oprint_def Let_def)

section \<open>Facts about the job ids of a step\<close>

lemma int32_in_range: "- 2147483648 \<le> x \<Longrightarrow> x \<le> 2147483647 \<Longrightarrow> int32 x = x"
  by (simp add: int32_def)

lemma int32_wraps: "int32 (2147483647 + 1) = - 2147483648"
  by (simp add: int32_def)

lemma int32_succ_neq: "int32 (x + 1) \<noteq> x"
proof
  assume a: "int32 (x + 1) = x"
  have "- 2147483648 \<le> int32 (x + 1)" "int32 (x + 1) \<le> 2147483647"
    by (simp_all add: int32_def) 
  with a have r: "- 2147483648 \<le> x" "x \<le> 2147483647" by simp_all
  show False
  proof (cases "x = 2147483647")
    case True
    with a show False by (simp add: int32_def)
  next
    case False
    with r have "int32 (x + 1) = x + 1" by (simp add: int32_in_range)
    with a show False by simp
  qed
qed

lemma jid_sequence_length: "length (jid_sequence a n) = n"
  by (induction n arbitrary: a) auto

lemma jid_sequence_append:
  "jid_sequence a (m + n)
     = jid_sequence a m @ jid_sequence (((\<lambda>x. int32 (x + 1)) ^^ m) a) n"
proof (induction m arbitrary: a)
  case 0
  then show ?case by simp
next
  case (Suc m)
  have "((\<lambda>x. int32 (x + 1)) ^^ m) (int32 (a + 1)) = int32 (((\<lambda>x. int32 (x + 1)) ^^ m) a + 1)"
    using funpow_swap1[of "\<lambda>x. int32 (x + 1)" m a] by simp
  then show ?case using Suc[of "int32 (a + 1)"] by simp
qed

lemma jid_sequence_upto:
  "- 2147483648 \<le> a \<Longrightarrow> a + int n - 1 \<le> 2147483647 \<Longrightarrow>
     jid_sequence a n = [a..a + int n - 1]"
proof (induction n arbitrary: a)
  case 0
  then show ?case by simp
next
  case (Suc n)
  show ?case
  proof (cases n)
    case 0
    then show ?thesis by simp
  next
    case (Suc k)
    with Suc.prems have i: "int32 (a + 1) = a + 1" by (simp add: int32_in_range)
    have "jid_sequence (a + 1) n = [a + 1..a + 1 + int n - 1]"
      using Suc.prems by (intro Suc.IH) auto
    then show ?thesis using i by (simp add: upto_rec1[of a])
  qed
qed

lemma funpow_next_jid:
  "- 2147483648 \<le> a \<Longrightarrow> a + int n \<le> 2147483647 \<Longrightarrow>
     ((\<lambda>x. int32 (x + 1)) ^^ n) a = a + int n"
  by (induction n) (auto simp: int32_in_range)

lemma jids_within_refl: "jids_within jl jl"
  by (auto simp: jids_within_def list_all_iff list_ex_iff)

lemma list_all_jid_set_state:
  "list_all (\<lambda>j'. Q (job_jid j')) (map (\<lambda>j. if job_pid j = p then j\<lparr>job_state := st\<rparr> else j) xs)
     = list_all (\<lambda>j'. Q (job_jid j')) xs"
  by (induction xs) auto

lemma jids_within_update:
  "jids_within (snd (update_job_pid jl' p st)) jl = jids_within jl' jl"
  using list_all_jid_set_state[of "\<lambda>i. list_ex (\<lambda>j. job_jid j = i) (jobs jl)" p st "jobs jl'"]
  by (simp add: jids_within_def update_job_pid_def)

lemma jids_within_remove_pid:
  "jids_within jl' jl \<Longrightarrow> jids_within (snd (remove_job_pid jl' p)) jl"
  by (auto simp: jids_within_def remove_job_pid_def list_all_iff list_ex_iff)

lemma jids_within_remove_jid:
  "jids_within jl' jl \<Longrightarrow> jids_within (snd (remove_job_jid jl' i)) jl"
  by (auto simp: jids_within_def remove_job_jid_def list_all_iff list_ex_iff)

lemma jids_within_trans:
  "jids_within a b \<Longrightarrow> jids_within b c \<Longrightarrow> jids_within a c"
  unfolding jids_within_def list_all_iff list_ex_iff by force

lemmas within_simps = jids_within_refl jids_within_update jids_within_remove_pid
  jids_within_remove_jid

lemma new_jids_within:
  "jids_within (job_list s') (job_list s) \<Longrightarrow> new_jids s s' = []"
  unfolding new_jids_def jids_within_def list_all_iff list_ex_iff filter_empty_conv by force

lemma new_jids_appended:
  assumes "jobs (job_list s') = jobs (job_list s) @ [j]"
    and "\<not> list_ex (\<lambda>x. job_jid x = job_jid j) (jobs (job_list s))"
  shows "new_jids s s' = [job_jid j]"
proof -
  have "filter (\<lambda>i. \<not> list_ex (\<lambda>j. job_jid j = i) (jobs (job_list s)))
          (map job_jid (jobs (job_list s))) = []"
    by (auto simp: list_ex_iff filter_empty_conv)
  then show ?thesis using assms by (simp add: new_jids_def)
qed

lemma jid_step_within:
  "next_jid s' = next_jid s \<Longrightarrow> jids_within (job_list s') (job_list s) \<Longrightarrow> jid_step s s'"
  by (simp add: jid_step_def new_jids_within)

lemma jid_step_add:
  assumes "add_job (job_list s) (next_jid s) pid st cmd = (r, jl')"
    and "job_list s' = jl'"
    and "next_jid s' = (if r = 0 then int32 (next_jid s + 1) else next_jid s)"
  shows "jid_step s s'"
proof -
  from add_job_result[OF assms(1)] show ?thesis
  proof (elim disjE conjE)
    assume "r = - 1" "jl' = job_list s"
    then show ?thesis using assms(2,3) by (simp add: jid_step_within jids_within_refl)
  next
    assume a: "r = 0" "\<not> list_ex (\<lambda>x. job_jid x = next_jid s) (jobs (job_list s))"
      "jl' = (job_list s)\<lparr>jobs := jobs (job_list s) @
          [\<lparr>job_jid = next_jid s, job_pid = pid, job_state = st, job_command = cmd\<rparr>]\<rparr>"
    have "new_jids s s' = [next_jid s]"
      using new_jids_appended[of s' s "\<lparr>job_jid = next_jid s, job_pid = pid, job_state = st, job_command = cmd\<rparr>"]
        a assms(2) by simp
    then show ?thesis using a(1) assms(3) by (simp add: jid_step_def)
  qed
qed

lemma jid_step_from:
  "job_list s0 = job_list s \<Longrightarrow> next_jid s0 = next_jid s \<Longrightarrow> jid_step s0 s' = jid_step s s'"
  by (simp add: jid_step_def new_jids_def)

lemma reap_event_jid_step:
  assumes "reap_event pid status s = Some s'"
  shows "jid_step s s'"
proof (cases "get_job_jid (job_list s) pid = - 1 \<and> pid \<noteq> fg_pid s")
  case True
  with assms show ?thesis by (simp add: reap_event_def)
next
  case False
  let ?jid = "get_job_jid (job_list s) pid"
  show ?thesis
  proof (cases status)
    case (WExited code)
    with False assms show ?thesis
      by (auto simp: reap_event_def Let_def oprint_def within_simps
          intro!: jid_step_within split: if_splits)
  next
    case (WSignaled sg)
    with False assms show ?thesis
      by (auto simp: reap_event_def Let_def oprint_def within_simps
          intro!: jid_step_within split: if_splits)
  next
    case (WStopped sg)
    show ?thesis
    proof (cases "?jid = - 1")
      case True
      obtain r jl' where a: "add_job (job_list s) (next_jid s) pid STOPPED
                (if fg_pid s = pid then ''fg_command'' else ''bg_command'') = (r, jl')"
        by (cases "add_job (job_list s) (next_jid s) pid STOPPED
                (if fg_pid s = pid then ''fg_command'' else ''bg_command'')")
      have "job_list s' = jl'" "next_jid s' = (if r = 0 then int32 (next_jid s + 1) else next_jid s)"
        using assms False True WStopped a
        by (auto simp: reap_event_def Let_def oprint_def eprint_def split: if_splits)
      with a show ?thesis by (rule jid_step_add)
    next
      case f: False
      with False assms WStopped show ?thesis
        by (auto simp: reap_event_def Let_def oprint_def within_simps intro!: jid_step_within)
    qed
  next
    case WContinued
    with False assms show ?thesis
      by (auto simp: reap_event_def Let_def oprint_def within_simps
          intro!: jid_step_within split: if_splits)
  qed
qed

lemma builtin_fg_within:
  "fst (builtin_fg e jid pid s) \<noteq> 0
   \<and> next_jid (snd (builtin_fg e jid pid s)) = next_jid s
   \<and> jids_within (job_list (snd (builtin_fg e jid pid s))) (job_list s)"
  by (auto simp: builtin_fg_def fg_status_def sys_defs Let_def within_simps
      split: prod.splits option.splits wstatus.splits if_splits)

lemma builtin_bg_within:
  "fst (builtin_bg e pid state s) \<noteq> 0
   \<and> next_jid (snd (builtin_bg e pid state s)) = next_jid s
   \<and> jids_within (job_list (snd (builtin_bg e pid state s))) (job_list s)"
  by (auto simp: builtin_bg_def sys_defs Let_def within_simps
      split: prod.splits option.splits if_splits)

lemma handle_builtin_within:
  assumes "handle_builtin e r s = Some (st, s1)"
  shows "st \<noteq> 0 \<and> next_jid s1 = next_jid s \<and> jids_within (job_list s1) (job_list s)"
proof (cases "command_path r = None \<or> argv r = []")
  case True
  with assms show ?thesis by (auto simp: handle_builtin_def jids_within_refl)
next
  case wf: False
  show ?thesis
  proof (cases "get_job_pid (job_list s) (job_id r) = - 1")
    case True
    with assms wf show ?thesis
      by (auto simp: handle_builtin_def get_job_info_absent eprint_def jids_within_refl
          split: if_splits)
  next
    case False
    let ?p = "get_job_pid (job_list s) (job_id r)"
    let ?s0 = "s\<lparr>job_list := snd (update_job_pid (job_list s) ?p RUNNING)\<rparr>"
    have "jids_within (job_list ?s0) (job_list s)"
      by (simp add: jids_within_update jids_within_refl)
    then have w0: "jids_within (job_list s') (job_list ?s0) \<Longrightarrow> jids_within (job_list s') (job_list s)"
      for s'
      using jids_within_trans by blast
    from assms wf False have "(st, s1) = builtin_fg e (job_id r) ?p ?s0
        \<or> (st, s1) = builtin_bg e ?p STOPPED ?s0"
      by (auto simp: handle_builtin_def get_job_info_tracked split: if_splits)
    then show ?thesis
    proof
      assume a: "(st, s1) = builtin_fg e (job_id r) ?p ?s0"
      from builtin_fg_within[of e "job_id r" ?p ?s0] w0[of s1] show ?thesis
        unfolding a[symmetric] by simp
    next
      assume a: "(st, s1) = builtin_bg e ?p STOPPED ?s0"
      from builtin_bg_within[of e ?p STOPPED ?s0] w0[of s1] show ?thesis
        unfolding a[symmetric] by simp
    qed
  qed
qed

lemma background_launch_jid_step: "jid_step s (background_launch path pid s)"
proof -
  obtain r jl' where a: "add_job (job_list s) (next_jid s) pid RUNNING path = (r, jl')"
    by (cases "add_job (job_list s) (next_jid s) pid RUNNING path")
  have "job_list (background_launch path pid s) = jl'"
    "next_jid (background_launch path pid s) = (if r = 0 then int32 (next_jid s + 1) else next_jid s)"
    using a by (auto simp: background_launch_def oprint_def eprint_def)
  with a show ?thesis by (rule jid_step_add)
qed

lemma foreground_wait_jid_step: "jid_step s (foreground_wait e path pid s)"
proof (cases "\<exists>sg. waitpid_ret e = Some (WStopped sg)")
  case True
  then obtain sg where w: "waitpid_ret e = Some (WStopped sg)" by blast
  obtain r jl' where a: "add_job (job_list s) (next_jid s) pid STOPPED path = (r, jl')"
    by (cases "add_job (job_list s) (next_jid s) pid STOPPED path")
  have "job_list (foreground_wait e path pid s) = jl'"
    "next_jid (foreground_wait e path pid s) = (if r = 0 then int32 (next_jid s + 1) else next_jid s)"
    using a w by (auto simp: foreground_wait_def sys_defs Let_def)
  with a show ?thesis by (rule jid_step_add)
next
  case False
  then have "next_jid (foreground_wait e path pid s) = next_jid s
      \<and> job_list (foreground_wait e path pid s) = job_list s"
    by (auto simp: foreground_wait_def sys_defs Let_def split: option.splits wstatus.splits)
  then show ?thesis by (simp add: jid_step_within jids_within_refl)
qed

lemma launch_jid_step: "jid_step s (launch e bg path s)"
proof (cases "fork_ret e")
  case None
  then show ?thesis by (simp add: launch_def perror_def jid_step_within jids_within_refl)
next
  case (Some pid)
  let ?s1 = "if setpgid_err e then perror ''setpgid'' s else s"
  have eq: "job_list ?s1 = job_list s" "next_jid ?s1 = next_jid s" by (simp_all add: perror_def)
  have "jid_step ?s1 (launch e bg path s)"
    using Some foreground_wait_jid_step[of ?s1 e path pid] background_launch_jid_step[of ?s1 path pid]
    by (simp add: launch_def Let_def)
  then show ?thesis using jid_step_from[OF eq] by simp
qed

lemma run_command_jid_step: "jid_step s (run_command e r s)"
proof (cases "handle_builtin e r s")
  case None
  then show ?thesis
    using launch_jid_step by (simp add: run_command_def jid_step_within jids_within_refl)
next
  case (Some a)
  obtain st s1 where a: "a = (st, s1)" by (cases a)
  from handle_builtin_within[of e r s st s1] Some a
  show ?thesis by (simp add: run_command_def jid_step_within)
qed

lemma main_iteration_snd:
  "main_iteration e evs ln s =
     (case ln of None \<Rightarrow> snd (reap_background_processes e evs s)
      | Some r \<Rightarrow> run_command e r (snd (reap_background_processes e evs s)))"
  by (cases ln; cases "reap_background_processes e evs s") (simp_all add: main_iteration_def)



lemma issued_from_Nil: "issued_from a [] a"
  by (simp add: issued_from_def)

lemma issued_from_append:
  assumes "issued_from a xs b" and "issued_from b ys c"
  shows "issued_from a (xs @ ys) c"
proof -
  have x: "xs = jid_sequence a (length xs)" and b: "b = ((\<lambda>x. int32 (x + 1)) ^^ length xs) a"
    using assms(1) by (simp_all add: issued_from_def)
  have y: "ys = jid_sequence b (length ys)" and c: "c = ((\<lambda>x. int32 (x + 1)) ^^ length ys) b"
    using assms(2) by (simp_all add: issued_from_def)
  have "jid_sequence a (length xs + length ys) = xs @ ys"
    using jid_sequence_append[of a "length xs" "length ys"] x y b by simp
  moreover have "((\<lambda>x. int32 (x + 1)) ^^ (length ys + length xs)) a = c"
    using funpow_add[of "length ys" "length xs" "\<lambda>x. int32 (x + 1)"] b c by simp
  ultimately show ?thesis by (simp add: issued_from_def add.commute)
qed

lemma jid_step_issued_from:
  "jid_step s s' \<Longrightarrow> issued_from (next_jid s) (new_jids s s') (next_jid s')"
  by (auto simp: jid_step_def issued_from_def)

lemma issued_reap_from:
  "issued_from (next_jid s) (issued_reap evs s) (next_jid (snd (reap_loop evs reaped s)))"
proof (induction evs arbitrary: s reaped)
  case Nil
  then show ?case by (simp add: issued_from_Nil)
next
  case (Cons ev evs)
  obtain pid status where ev: "ev = (pid, status)" by (cases ev)
  show ?case
  proof (cases "pid > 0")
    case False
    then show ?thesis using ev by (simp add: issued_from_Nil)
  next
    case True
    show ?thesis
    proof (cases "reap_event pid status s")
      case None
      then show ?thesis using ev True Cons.IH[of s reaped] by simp
    next
      case (Some s1)
      from issued_from_append[OF jid_step_issued_from[OF reap_event_jid_step[OF Some]]
          Cons.IH[of s1 1]]
      show ?thesis using ev True Some by simp
    qed
  qed
qed

lemma main_iteration_from:
  "issued_from (next_jid s) (issued_iteration e evs ln s) (next_jid (main_iteration e evs ln s))"
proof -
  let ?s1 = "snd (reap_background_processes e evs s)"
  have n1: "next_jid ?s1 = next_jid (snd (reap_loop evs 0 s))"
    by (simp add: reap_background_processes_def perror_def split: prod.splits)
  have rp: "issued_from (next_jid s) (issued_reap evs s) (next_jid ?s1)"
    using issued_reap_from[of s evs 0] n1 by simp
  show ?thesis
  proof (cases ln)
    case None
    then show ?thesis using rp by (simp add: main_iteration_snd issued_iteration_def)
  next
    case (Some r)
    from issued_from_append[OF rp jid_step_issued_from[OF run_command_jid_step[of ?s1 e r]]]
    show ?thesis using Some by (simp add: main_iteration_snd issued_iteration_def Let_def)
  qed
qed

lemma main_loop_from:
  "issued_from (next_jid s) (issued_jids turns s) (next_jid (main_loop turns s))"
proof (induction turns arbitrary: s)
  case Nil
  then show ?case by (simp add: issued_from_Nil)
next
  case (Cons turn turns)
  obtain e evs ln where t: "turn = (e, evs, ln)" by (cases turn)
  from issued_from_append[OF main_iteration_from[of s e evs ln]
      Cons.IH[of "main_iteration e evs ln s"]]
  show ?case using t by simp
qed

lemma step_jids_from:
  "job_jid ` set (jobs (job_list s'))
     \<subseteq> job_jid ` set (jobs (job_list s)) \<union> set (new_jids s s')"
proof
  fix i
  assume "i \<in> job_jid ` set (jobs (job_list s'))"
  then have m: "i \<in> set (map job_jid (jobs (job_list s')))" by simp
  show "i \<in> job_jid ` set (jobs (job_list s)) \<union> set (new_jids s s')"
  proof (cases "list_ex (\<lambda>j. job_jid j = i) (jobs (job_list s))")
    case True
    then show ?thesis by (auto simp: list_ex_iff)
  next
    case False
    with m show ?thesis by (simp add: new_jids_def)
  qed
qed

lemma reap_loop_jids_from:
  "job_jid ` set (jobs (job_list (snd (reap_loop evs reaped s))))
     \<subseteq> job_jid ` set (jobs (job_list s)) \<union> set (issued_reap evs s)"
proof (induction evs arbitrary: s reaped)
  case Nil
  then show ?case by simp
next
  case (Cons ev evs)
  obtain pid status where ev: "ev = (pid, status)" by (cases ev)
  show ?case
  proof (cases "pid > 0")
    case False
    then show ?thesis using ev by simp
  next
    case True
    show ?thesis
    proof (cases "reap_event pid status s")
      case None
      then show ?thesis using ev True Cons.IH[of reaped s] by simp
    next
      case (Some s1)
      have a: "job_jid ` set (jobs (job_list (snd (reap_loop evs 1 s1))))
          \<subseteq> job_jid ` set (jobs (job_list s1)) \<union> set (issued_reap evs s1)"
        by (rule Cons.IH)
      have b: "job_jid ` set (jobs (job_list s1))
          \<subseteq> job_jid ` set (jobs (job_list s)) \<union> set (new_jids s s1)"
        by (rule step_jids_from)
      have c: "reap_loop (ev # evs) reaped s = reap_loop evs 1 s1"
        "issued_reap (ev # evs) s = new_jids s s1 @ issued_reap evs s1"
        using ev True Some by simp_all
      have "job_jid ` set (jobs (job_list (snd (reap_loop evs 1 s1))))
          \<subseteq> job_jid ` set (jobs (job_list s)) \<union> set (new_jids s s1 @ issued_reap evs s1)"
        using a b unfolding set_append by blast
      then show ?thesis unfolding c .
    qed
  qed
qed

lemma main_iteration_jids_from:
  "job_jid ` set (jobs (job_list (main_iteration e evs ln s)))
     \<subseteq> job_jid ` set (jobs (job_list s)) \<union> set (issued_iteration e evs ln s)"
proof -
  let ?s1 = "snd (reap_background_processes e evs s)"
  have j1: "job_list ?s1 = job_list (snd (reap_loop evs 0 s))"
    by (simp add: reap_background_processes_def perror_def split: prod.splits)
  have rp: "job_jid ` set (jobs (job_list ?s1))
      \<subseteq> job_jid ` set (jobs (job_list s)) \<union> set (issued_reap evs s)"
    unfolding j1 by (rule reap_loop_jids_from)
  show ?thesis
  proof (cases ln)
    case None
    then show ?thesis using rp by (simp add: main_iteration_snd issued_iteration_def)
  next
    case (Some r)
    have b: "job_jid ` set (jobs (job_list (run_command e r ?s1)))
        \<subseteq> job_jid ` set (jobs (job_list ?s1)) \<union> set (new_jids ?s1 (run_command e r ?s1))"
      by (rule step_jids_from)
    have c: "main_iteration e evs ln s = run_command e r ?s1"
      "issued_iteration e evs ln s = issued_reap evs s @ new_jids ?s1 (run_command e r ?s1)"
      using Some by (simp_all add: main_iteration_snd issued_iteration_def Let_def)
    have "job_jid ` set (jobs (job_list (run_command e r ?s1)))
        \<subseteq> job_jid ` set (jobs (job_list s))
          \<union> set (issued_reap evs s @ new_jids ?s1 (run_command e r ?s1))"
      using rp b unfolding set_append by blast
    then show ?thesis unfolding c .
  qed
qed

lemma main_loop_jids_from:
  "job_jid ` set (jobs (job_list (main_loop turns s)))
     \<subseteq> job_jid ` set (jobs (job_list s)) \<union> set (issued_jids turns s)"
proof (induction turns arbitrary: s)
  case Nil
  then show ?case by simp
next
  case (Cons turn turns)
  obtain e evs ln where t: "turn = (e, evs, ln)" by (cases turn)
  have a: "job_jid ` set (jobs (job_list (main_loop turns (main_iteration e evs ln s))))
      \<subseteq> job_jid ` set (jobs (job_list (main_iteration e evs ln s)))
        \<union> set (issued_jids turns (main_iteration e evs ln s))"
    by (rule Cons.IH)
  have b: "job_jid ` set (jobs (job_list (main_iteration e evs ln s)))
     \<subseteq> job_jid ` set (jobs (job_list s)) \<union> set (issued_iteration e evs ln s)"
    by (rule main_iteration_jids_from)
  have c: "main_loop (turn # turns) s = main_loop turns (main_iteration e evs ln s)"
    "issued_jids (turn # turns) s
       = issued_iteration e evs ln s @ issued_jids turns (main_iteration e evs ln s)"
    using t by simp_all
  have "job_jid ` set (jobs (job_list (main_loop turns (main_iteration e evs ln s))))
      \<subseteq> job_jid ` set (jobs (job_list s))
        \<union> set (issued_iteration e evs ln s @ issued_jids turns (main_iteration e evs ln s))"
    using a b unfolding set_append by blast
  then show ?case unfolding c .
qed

section \<open>Facts about the reaper's loop and about sessions\<close>

lemma update_job_pid_map:
  "snd (update_job_pid jl p st)
     = jl\<lparr>jobs := map (\<lambda>j. if job_pid j = p then j\<lparr>job_state := st\<rparr> else j) (jobs jl)\<rparr>"
proof (cases "list_ex (\<lambda>j. job_pid j = p) (jobs jl)")
  case True
  then show ?thesis by (simp add: update_job_pid_def)
next
  case False
  then have "map (\<lambda>j. if job_pid j = p then j\<lparr>job_state := st\<rparr> else j) (jobs jl) = jobs jl"
    by (auto simp: list_ex_iff intro: map_idI)
  with False show ?thesis by (simp add: update_job_pid_def)
qed

lemma remove_job_jid_filter:
  "snd (remove_job_jid jl i) = jl\<lparr>jobs := filter (\<lambda>j. job_jid j \<noteq> i) (jobs jl)\<rparr>"
proof (cases "list_ex (\<lambda>j. job_jid j = i) (jobs jl)")
  case True
  then show ?thesis by (simp add: remove_job_jid_def)
next
  case False
  then have "filter (\<lambda>j. job_jid j \<noteq> i) (jobs jl) = jobs jl"
    by (auto simp: list_ex_iff)
  with False show ?thesis by (simp add: remove_job_jid_def)
qed

lemma take_terminal_control_frame:
  "take_terminal_control e s = (t, s') \<Longrightarrow> job_list s' = job_list s \<and> stdout s' = stdout s"
  by (auto simp: take_terminal_control_def sys_tcsetpgrp_def perror_def Let_def split: if_splits)

lemma builtin_fg_signaled:
  assumes "0 < pid" and "give_ok e" and "kill_ok e" and "waitpid_ret e = Some (WSignaled sg)"
  shows "stdout (snd (builtin_fg e jid pid s)) = stdout s @ [msg_signaled_nojid pid sg]
       \<and> job_list (snd (builtin_fg e jid pid s))
           = snd (remove_job_jid (snd (update_job_pid (job_list s) pid RUNNING)) jid)"
  using assms
  by (auto simp: builtin_fg_def give_terminal_to_def send_signal_to_job_def wait_for_job_def
      sys_tcsetpgrp_def sys_kill_def sys_waitpid_def fg_status_signaled Let_def
      split: prod.splits dest!: take_terminal_control_frame)




lemma main_loop_append: "main_loop (a @ b) s = main_loop b (main_loop a s)"
  by (induction a arbitrary: s) auto

lemma issued_jids_append:
  "issued_jids (a @ b) s = issued_jids a s @ issued_jids b (main_loop a s)"
  by (induction a arbitrary: s) auto

lemma churn_turn:
  assumes "0 \<le> n" and "k \<noteq> 0"
    and "job_list s = \<lparr>jobs = (if n = 0 then []
            else [\<lparr>job_jid = n, job_pid = 101, job_state = RUNNING,
                   job_command = ''/bin/sleep''\<rparr>]), max_jobs = 8\<rparr>"
    and "fg_pid s = - 1" and "next_jid s = k"
  shows "job_list (main_loop [ex_churn] s)
           = \<lparr>jobs = [\<lparr>job_jid = k, job_pid = 101, job_state = RUNNING,
                        job_command = ''/bin/sleep''\<rparr>], max_jobs = 8\<rparr>
       \<and> fg_pid (main_loop [ex_churn] s) = - 1
       \<and> next_jid (main_loop [ex_churn] s) = int32 (k + 1)
       \<and> issued_jids [ex_churn] s = [k]"
  using assms
  by (cases "n = 0")
    (simp_all add: ex_defs main_iteration_def issued_iteration_def reap_background_processes_def
      reap_event_def get_job_jid_def remove_job_pid_def run_command_def handle_builtin_def
      launch_def background_launch_def add_job_def new_jids_def oprint_def Let_def)

lemma churn_prefix:
  "int m \<le> 2147483647 \<Longrightarrow>
     job_list (main_loop (replicate m ex_churn) (init_shell 8 50))
       = \<lparr>jobs = (if int m = 0 then []
            else [\<lparr>job_jid = int m, job_pid = 101, job_state = RUNNING,
                   job_command = ''/bin/sleep''\<rparr>]), max_jobs = 8\<rparr>
     \<and> fg_pid (main_loop (replicate m ex_churn) (init_shell 8 50)) = - 1
     \<and> next_jid (main_loop (replicate m ex_churn) (init_shell 8 50)) = int32 (int m + 1)
     \<and> issued_jids (replicate m ex_churn) (init_shell 8 50) = [1..int m]"
proof (induction m)
  case 0
  then show ?case by (simp add: init_shell_def int32_def)
next
  case (Suc m)
  let ?s = "main_loop (replicate m ex_churn) (init_shell 8 50)"
  have b: "int m + 1 \<le> 2147483647" using Suc.prems by simp
  then have ih: "job_list ?s
       = \<lparr>jobs = (if int m = 0 then []
            else [\<lparr>job_jid = int m, job_pid = 101, job_state = RUNNING,
                   job_command = ''/bin/sleep''\<rparr>]), max_jobs = 8\<rparr>"
      "fg_pid ?s = - 1" "next_jid ?s = int m + 1"
      "issued_jids (replicate m ex_churn) (init_shell 8 50) = [1..int m]"
    using Suc.IH by (simp_all add: int32_in_range)
  have r: "replicate (Suc m) ex_churn = replicate m ex_churn @ [ex_churn]"
    by (simp add: replicate_append_same)
  from churn_turn[of "int m" "int m + 1" ?s, OF _ _ ih(1,2,3)]
  have st: "job_list (main_loop [ex_churn] ?s)
           = \<lparr>jobs = [\<lparr>job_jid = int m + 1, job_pid = 101, job_state = RUNNING,
                        job_command = ''/bin/sleep''\<rparr>], max_jobs = 8\<rparr>"
      "fg_pid (main_loop [ex_churn] ?s) = - 1"
      "next_jid (main_loop [ex_churn] ?s) = int32 (int m + 1 + 1)"
      "issued_jids [ex_churn] ?s = [int m + 1]"
    by simp_all
  have u: "[1..int m] @ [int m + 1] = [1..int m + 1]"
    by (simp add: upto_rec2[of 1 "int m + 1"])
  show ?case
    unfolding r main_loop_append issued_jids_append
    using st ih(4) u by (simp add: add.commute)
qed

lemma issued_from_bounded:
  assumes "issued_from 1 xs b" and "int (length xs) \<le> 2147483647"
  shows "xs = [1..int (length xs)]"
proof -
  have "xs = jid_sequence 1 (length xs)" using assms(1) by (simp add: issued_from_def)
  moreover have "jid_sequence 1 (length xs) = [1..1 + int (length xs) - 1]"
    using assms(2) by (intro jid_sequence_upto) auto
  ultimately show ?thesis by simp
qed

section \<open>Terminal ownership and foreground state\<close>

text \<open>
  Claim C1. Every exit path of a foreground-owning operation hands the terminal back
  to the shell's own process group before control returns to the loop. For \<^verbatim>\<open>fg %N\<close>
  on a job of the table and for the parent's foreground wait, whatever the
  environment answers (the grant fails, the SIGCONT send fails, the blocking wait
  fails, or all succeed), the last system call of the operation is
  \<^verbatim>\<open>tcsetpgrp(STDIN_FILENO, getpgrp())\<close>, and when that call succeeds the terminal's
  foreground group is the shell's. The assumption says that \<^verbatim>\<open>getpgrp()\<close> returns a
  process group id and not an error, which \<^verbatim>\<open>take_terminal_control\<close> tests for.
\<close>

theorem terminal_returned_on_every_path:
  assumes "0 \<le> shell_pgid s"
  shows "(command_path r \<noteq> None \<and> argv r \<noteq> [] \<and> cmd_type r = CMD_FG
            \<and> get_job_pid (job_list s) (job_id r) \<noteq> - 1 \<longrightarrow>
          (\<exists>st s'. handle_builtin e r s = Some (st, s')
             \<and> (\<exists>calls. syscalls s' = syscalls s @ calls @ [Tcsetpgrp (shell_pgid s)])
             \<and> shell_pgid s' = shell_pgid s
             \<and> (take_ok e \<longrightarrow> tty_pgrp s' = shell_pgid s)))
       \<and> (\<exists>calls. syscalls (foreground_wait e path pid s)
                      = syscalls s @ calls @ [Tcsetpgrp (shell_pgid s)])
       \<and> shell_pgid (foreground_wait e path pid s) = shell_pgid s
       \<and> (take_ok e \<longrightarrow> tty_pgrp (foreground_wait e path pid s) = shell_pgid s)"
proof -
  have fg: "\<exists>st s'. handle_builtin e r s = Some (st, s')
             \<and> (\<exists>calls. syscalls s' = syscalls s @ calls @ [Tcsetpgrp (shell_pgid s)])
             \<and> shell_pgid s' = shell_pgid s
             \<and> (take_ok e \<longrightarrow> tty_pgrp s' = shell_pgid s)"
    if h: "command_path r \<noteq> None" "argv r \<noteq> []" "cmd_type r = CMD_FG"
          "get_job_pid (job_list s) (job_id r) \<noteq> - 1"
  proof -
    let ?p = "get_job_pid (job_list s) (job_id r)"
    let ?s0 = "s\<lparr>job_list := snd (update_job_pid (job_list s) ?p RUNNING)\<rparr>"
    have hb: "handle_builtin e r s = Some (builtin_fg e (job_id r) ?p ?s0)"
      using h by (rule handle_builtin_fg_tracked)
    have "0 \<le> shell_pgid ?s0" using assms by simp
    from builtin_fg_terminal[OF this, of e "job_id r" ?p]
    show ?thesis unfolding hb
      by (cases "builtin_fg e (job_id r) ?p ?s0") simp
  qed
  show ?thesis using fg foreground_wait_terminal[of e path pid s] by blast
qed

theorem terminal_returned_witness:
  "(\<exists>st s'. handle_builtin (ex_env None) (ex_fg 1) (ex_shell STOPPED) = Some (st, s')
       \<and> syscalls s' = [Tcsetpgrp 100, Kill (- 100) SIGCONT, Waitpid 100, Tcsetpgrp 50]
       \<and> tty_pgrp s' = 50)
   \<and> tty_pgrp (foreground_wait (ex_env None) ''/bin/sleep'' 101 (ex_shell STOPPED)) = 50"
  using terminal_returned_on_every_path[of "ex_shell STOPPED" "ex_fg 1" "ex_env None" "''/bin/sleep''" 101]
  by (simp add: ex_defs handle_builtin_def get_job_info_def get_job_pid_def update_job_pid_def
      builtin_fg_def sys_defs foreground_wait_def)

text \<open>
  Claim C2. The recorded foreground state is cleared on every return of the
  foreground-running logic, also when the blocking wait fails. The \<^verbatim>\<open>fg\<close> built-in
  does not do so: when \<^verbatim>\<open>wait_for_job\<close> fails it returns -1 right after
  \<^verbatim>\<open>take_terminal_control()\<close>, with \<^verbatim>\<open>fg_pid\<close> and \<^verbatim>\<open>foreground_job_id\<close> still set to
  the job. Here job 1 (pid 100) is brought to the foreground and \<^verbatim>\<open>waitpid\<close> fails.
\<close>

theorem fg_wait_failure_keeps_foreground_state:
  "map_option (\<lambda>(st, s'). (st, fg_pid s', foreground_job_id s'))
     (handle_builtin (ex_env None) (ex_fg 1) (ex_shell STOPPED)) = Some (- 1, 100, 1)"
  by (simp add: ex_defs handle_builtin_def get_job_info_def get_job_pid_def update_job_pid_def
      builtin_fg_def sys_defs)

text \<open>
  The parent's foreground wait in \<^verbatim>\<open>main\<close> does clear \<^verbatim>\<open>fg_pid\<close> on every path, the
  failure of \<^verbatim>\<open>waitpid\<close> included; it never writes \<^verbatim>\<open>foreground_job_id\<close>.
\<close>

theorem foreground_wait_clears_fg_pid:
  "fg_pid (foreground_wait e path pid s) = - 1
   \<and> foreground_job_id (foreground_wait e path pid s) = foreground_job_id s"
  by (auto simp: foreground_wait_def sys_defs Let_def split: prod.splits option.splits wstatus.splits)

section \<open>The built-ins on absent, running and stopped jobs\<close>

text \<open>
  Claim C3. \<^verbatim>\<open>fg %N\<close> for a job id that is not in the table prints exactly
  \<^verbatim>\<open>ERROR: No such job\<close> on standard error and changes nothing else: the job table
  is the same, no system call is made (so no blocking wait), \<^verbatim>\<open>handle_builtin\<close>
  returns -1 and the loop goes on with the next line.
\<close>

theorem fg_no_such_job:
  assumes "command_path r \<noteq> None" and "argv r \<noteq> []" and "cmd_type r = CMD_FG"
    and "\<not> list_ex (\<lambda>j. job_jid j = job_id r) (jobs (job_list s))"
  shows "handle_builtin e r s = Some (- 1, s\<lparr>stderr := stderr s @ [Line ''ERROR: No such job'']\<rparr>)
       \<and> run_command e r s = s\<lparr>stderr := stderr s @ [Line ''ERROR: No such job'']\<rparr>"
  using assms get_job_pid_absent[OF assms(4)]
  by (auto simp: run_command_def handle_builtin_def get_job_info_absent eprint_def)

theorem fg_no_such_job_witness:
  "handle_builtin (ex_env None) (ex_fg 2) (ex_shell RUNNING)
     = Some (- 1, (ex_shell RUNNING)\<lparr>stderr := [Line ''ERROR: No such job'']\<rparr>)
   \<and> run_command (ex_env None) (ex_fg 2) (ex_shell RUNNING)
     = (ex_shell RUNNING)\<lparr>stderr := [Line ''ERROR: No such job'']\<rparr>"
  using fg_no_such_job[of "ex_fg 2" "ex_shell RUNNING" "ex_env None"]
  by (simp add: ex_defs)

text \<open>
  Claim C4. \<^verbatim>\<open>bg %N\<close> on a job whose state is RUNNING reports
  \<^verbatim>\<open>ERROR: Job is already running\<close> and changes nothing. The code does not:
  \<^verbatim>\<open>get_job_info\<close> stores STOPPED in its out-parameter for every job of the table, so
  the test \<^verbatim>\<open>state != STOPPED\<close> never holds. Here job 1 (pid 100) is RUNNING: the
  shell sends SIGCONT to the group, prints nothing and returns 1.
\<close>

theorem bg_running_job_not_rejected:
  "handle_builtin (ex_env None) (ex_bg 1) (ex_shell RUNNING)
     = Some (1, (ex_shell RUNNING)\<lparr>syscalls := [Kill (- 100) SIGCONT]\<rparr>)"
  by (simp add: ex_defs handle_builtin_def get_job_info_def get_job_pid_def update_job_pid_def
      builtin_bg_def sys_defs)

text \<open>
  What \<^verbatim>\<open>bg %N\<close> does on the other inputs: for a job id that is not in the table it
  prints \<^verbatim>\<open>ERROR: No such job\<close> and changes nothing else; for a job of the table
  (stopped or running) whose SIGCONT send succeeds it sends SIGCONT to the job's
  process group, stores RUNNING, prints nothing, makes no wait call and returns 1.
\<close>

theorem bg_absent_or_tracked:
  assumes "command_path r \<noteq> None" and "argv r \<noteq> []" and "cmd_type r = CMD_BG"
  shows "(\<not> list_ex (\<lambda>j. job_jid j = job_id r) (jobs (job_list s)) \<longrightarrow>
            handle_builtin e r s
              = Some (- 1, s\<lparr>stderr := stderr s @ [Line ''ERROR: No such job'']\<rparr>))
       \<and> (0 < get_job_pid (job_list s) (job_id r) \<and> kill_ok e \<longrightarrow>
            handle_builtin e r s
              = Some (1, s\<lparr>job_list := snd (update_job_pid (job_list s)
                                            (get_job_pid (job_list s) (job_id r)) RUNNING),
                           syscalls := syscalls s
                             @ [Kill (- get_job_pid (job_list s) (job_id r)) SIGCONT]\<rparr>))"
proof -
  have absent: "handle_builtin e r s
              = Some (- 1, s\<lparr>stderr := stderr s @ [Line ''ERROR: No such job'']\<rparr>)"
    if a: "\<not> list_ex (\<lambda>j. job_jid j = job_id r) (jobs (job_list s))"
    using assms get_job_pid_absent[OF a]
    by (auto simp: handle_builtin_def get_job_info_absent eprint_def)
  have tracked: "handle_builtin e r s
              = Some (1, s\<lparr>job_list := snd (update_job_pid (job_list s)
                                            (get_job_pid (job_list s) (job_id r)) RUNNING),
                           syscalls := syscalls s
                             @ [Kill (- get_job_pid (job_list s) (job_id r)) SIGCONT]\<rparr>)"
    if t: "0 < get_job_pid (job_list s) (job_id r)" "kill_ok e"
  proof -
    have "get_job_pid (job_list s) (job_id r) \<noteq> - 1" using t(1) by simp
    from handle_builtin_bg_tracked[OF assms this, of e] show ?thesis
      using t by (simp add: builtin_bg_def sys_defs update_job_pid_twice)
  qed
  show ?thesis using absent tracked by blast
qed

theorem bg_absent_or_tracked_witness:
  "handle_builtin (ex_env None) (ex_bg 2) (ex_shell STOPPED)
     = Some (- 1, (ex_shell STOPPED)\<lparr>stderr := [Line ''ERROR: No such job'']\<rparr>)
   \<and> handle_builtin (ex_env None) (ex_bg 1) (ex_shell STOPPED)
     = Some (1, (ex_shell RUNNING)\<lparr>syscalls := [Kill (- 100) SIGCONT]\<rparr>)"
  using bg_absent_or_tracked[of "ex_bg 2" "ex_shell STOPPED" "ex_env None"]
    bg_absent_or_tracked[of "ex_bg 1" "ex_shell STOPPED" "ex_env None"]
  by (simp add: ex_defs get_job_pid_def update_job_pid_def)

text \<open>
  Claim C9. \<^verbatim>\<open>get_job_info\<close> is equivalent to inspecting the stored state: it returns
  the job's current state and leaves the stored state unchanged. The code does
  neither: for the RUNNING job 1 it reports STOPPED where inspection gives RUNNING,
  and for the STOPPED job 1 it leaves the table with the job RUNNING.
\<close>

theorem get_job_info_not_inspection:
  "get_job_info (job_list (ex_shell RUNNING)) 1
     = (Some (100, STOPPED), job_list (ex_shell RUNNING))
   \<and> get_job_info_spec (job_list (ex_shell RUNNING)) 1
     = (Some (100, RUNNING), job_list (ex_shell RUNNING))
   \<and> get_job_info (job_list (ex_shell STOPPED)) 1
     = (Some (100, STOPPED), job_list (ex_shell RUNNING))
   \<and> get_job_info_spec (job_list (ex_shell STOPPED)) 1
     = (Some (100, STOPPED), job_list (ex_shell STOPPED))"
  by (simp add: ex_defs get_job_info_def get_job_info_spec_def get_job_pid_def update_job_pid_def)

text \<open>
  Claim C5. A job brought to the foreground by \<^verbatim>\<open>fg %N\<close> that dies by a signal is in
  the table at that time, so its death is reported with the job id,
  \<^verbatim>\<open>[<job_id>] (<pid>) terminated by signal <signal>\<close>, and the job is removed. The
  code removes the job but prints the line without the job id: for job 1 (pid 100)
  killed by signal 9 under \<^verbatim>\<open>fg %1\<close> the output is \<^verbatim>\<open>(100) terminated by signal 9\<close>,
  where the line with the job id is \<^verbatim>\<open>[1] (100) terminated by signal 9\<close>.
\<close>

theorem fg_signaled_line_has_no_job_id:
  "map_option (\<lambda>(st, s'). (st, stdout s', jobs (job_list s')))
     (handle_builtin (ex_env (Some (WSignaled 9))) (ex_fg 1) (ex_shell STOPPED))
     = Some (1, [''(100) terminated by signal 9''], [])
   \<and> msg_signaled 1 100 9 = ''[1] (100) terminated by signal 9''"
  by (simp add: ex_defs handle_builtin_def get_job_info_def get_job_pid_def update_job_pid_def
      builtin_fg_def sys_defs fg_status_def remove_job_jid_def fmt_defs)

text \<open>
  In general: when \<^verbatim>\<open>fg %N\<close> has granted the terminal and sent SIGCONT to job N
  (pid \<open>pid\<close>) and the blocking wait reports death by a signal, the line printed is
  \<^verbatim>\<open>(<pid>) terminated by signal <signal>\<close>, and the table afterwards is the old one
  with the job's state stored as RUNNING and the entries of job id N taken out.
\<close>

theorem fg_signaled_prints_pid_only:
  assumes "command_path r \<noteq> None" and "argv r \<noteq> []" and "cmd_type r = CMD_FG"
    and "get_job_pid (job_list s) (job_id r) = pid" and "0 < pid"
    and "give_ok e" and "kill_ok e" and "waitpid_ret e = Some (WSignaled sg)"
  shows "\<exists>st s'. handle_builtin e r s = Some (st, s')
           \<and> stdout s' = stdout s @ [msg_signaled_nojid pid sg]
           \<and> job_list s' = (job_list s)\<lparr>jobs :=
                 filter (\<lambda>j. job_jid j \<noteq> job_id r)
                   (map (\<lambda>j. if job_pid j = pid then j\<lparr>job_state := RUNNING\<rparr> else j)
                      (jobs (job_list s)))\<rparr>"
proof -
  let ?s0 = "s\<lparr>job_list := snd (update_job_pid (job_list s) pid RUNNING)\<rparr>"
  have "get_job_pid (job_list s) (job_id r) \<noteq> - 1" using assms(4,5) by simp
  from handle_builtin_fg_tracked[OF assms(1-3) this, of e]
  have hb: "handle_builtin e r s = Some (builtin_fg e (job_id r) pid ?s0)"
    using assms(4) by simp
  have jl: "snd (remove_job_jid (snd (update_job_pid (job_list s) pid RUNNING)) (job_id r))
      = (job_list s)\<lparr>jobs :=
                 filter (\<lambda>j. job_jid j \<noteq> job_id r)
                   (map (\<lambda>j. if job_pid j = pid then j\<lparr>job_state := RUNNING\<rparr> else j)
                      (jobs (job_list s)))\<rparr>"
    by (simp add: remove_job_jid_filter update_job_pid_map)
  from builtin_fg_signaled[OF assms(5-8), of "job_id r" ?s0]
  have "stdout (snd (builtin_fg e (job_id r) pid ?s0)) = stdout s @ [msg_signaled_nojid pid sg]"
    "job_list (snd (builtin_fg e (job_id r) pid ?s0))
       = snd (remove_job_jid (snd (update_job_pid (job_list s) pid RUNNING)) (job_id r))"
    by (simp_all add: update_job_pid_twice)
  then show ?thesis unfolding hb jl
    by (cases "builtin_fg e (job_id r) pid ?s0") simp
qed

theorem fg_signaled_prints_pid_only_witness:
  "\<exists>st s'. handle_builtin (ex_env (Some (WSignaled 9))) (ex_fg 1) (ex_shell STOPPED) = Some (st, s')
           \<and> stdout s' = [''(100) terminated by signal 9'']
           \<and> job_list s' = \<lparr>jobs = [], max_jobs = 8\<rparr>"
  using fg_signaled_prints_pid_only[of "ex_fg 1" "ex_shell STOPPED" 100 "ex_env (Some (WSignaled 9))" 9]
  by (simp add: ex_defs get_job_pid_def fmt_defs)

section \<open>Events consumed by the reaper\<close>






section \<open>Job ids over a session\<close>

text \<open>
  Claim C10. At each of the three places that admit a job (the background launch, the
  stop of the foreground command in \<^verbatim>\<open>main\<close>, and the stop of an untracked
  foreground pid seen by the reaper), \<^verbatim>\<open>next_jid\<close> is incremented (\<^verbatim>\<open>next_jid++\<close> on a
  C \<^verbatim>\<open>int\<close>) if and only if \<^verbatim>\<open>add_job\<close> returned 0. When the add fails, the shell
  prints \<^verbatim>\<open>Error: Failed to add job to job list\<close> on standard error, and the counter
  and the table are as before; the operation returns to the loop.
\<close>

theorem counter_incremented_iff_added:
  "(let r = fst (add_job (job_list s) (next_jid s) pid RUNNING path);
        s' = background_launch path pid s
    in (next_jid s' = int32 (next_jid s + 1)) = (r = 0)
       \<and> (r = 0 \<longrightarrow> s' = s\<lparr>job_list := snd (add_job (job_list s) (next_jid s) pid RUNNING path),
                              next_jid := int32 (next_jid s + 1),
                              stdout := stdout s @ [msg_background (next_jid s) pid]\<rparr>)
       \<and> (r \<noteq> 0 \<longrightarrow> s' = s\<lparr>stderr := stderr s @
                                   [Line ''Error: Failed to add job to job list'']\<rparr>))
   \<and> (waitpid_ret e = Some (WStopped sg) \<longrightarrow>
       (let r = fst (add_job (job_list s) (next_jid s) pid STOPPED path);
            s' = foreground_wait e path pid s
        in (next_jid s' = int32 (next_jid s + 1)) = (r = 0)
           \<and> (r = 0 \<longrightarrow> job_list s' = snd (add_job (job_list s) (next_jid s) pid STOPPED path)
                         \<and> stdout s' = stdout s @ [msg_suspended (next_jid s) pid sg])
           \<and> (r \<noteq> 0 \<longrightarrow> job_list s' = job_list s \<and> next_jid s' = next_jid s
                 \<and> stdout s' = stdout s
                 \<and> stderr s' = stderr s
                      @ (if give_ok e then [] else [Perror ''tcsetpgrp''])
                      @ [Line ''Error: Failed to add job to job list'']
                      @ (if take_ok e then [] else [Perror ''tcsetpgrp'']))))
   \<and> (get_job_jid (job_list s) pid = - 1 \<and> pid = fg_pid s \<longrightarrow>
       (let r = fst (add_job (job_list s) (next_jid s) pid STOPPED ''fg_command'')
        in \<exists>s'. reap_event pid (WStopped sg) s = Some s'
             \<and> (next_jid s' = int32 (next_jid s + 1)) = (r = 0)
             \<and> (r = 0 \<longrightarrow> s' = s\<lparr>job_list := snd (add_job (job_list s) (next_jid s) pid STOPPED
                                                        ''fg_command''),
                                    next_jid := int32 (next_jid s + 1),
                                    stdout := stdout s @ [msg_suspended (next_jid s) pid sg]\<rparr>)
             \<and> (r \<noteq> 0 \<longrightarrow> s' = s\<lparr>stderr := stderr s @
                                   [Line ''Error: Failed to add job to job list'']\<rparr>)))"
proof -
  have bg: "(let r = fst (add_job (job_list s) (next_jid s) pid RUNNING path);
        s' = background_launch path pid s
    in (next_jid s' = int32 (next_jid s + 1)) = (r = 0)
       \<and> (r = 0 \<longrightarrow> s' = s\<lparr>job_list := snd (add_job (job_list s) (next_jid s) pid RUNNING path),
                              next_jid := int32 (next_jid s + 1),
                              stdout := stdout s @ [msg_background (next_jid s) pid]\<rparr>)
       \<and> (r \<noteq> 0 \<longrightarrow> s' = s\<lparr>stderr := stderr s @
                                   [Line ''Error: Failed to add job to job list'']\<rparr>))"
  proof (cases "fst (add_job (job_list s) (next_jid s) pid RUNNING path) = 0")
    case True
    from add_job_added[OF True] show ?thesis
      by (simp add: background_launch_def oprint_def Let_def)
  next
    case False
    from add_job_failed[OF False] show ?thesis
      by (simp add: background_launch_def eprint_def Let_def int32_succ_neq
          int32_succ_neq[symmetric])
  qed
  have fg: "(let r = fst (add_job (job_list s) (next_jid s) pid STOPPED path);
            s' = foreground_wait e path pid s
        in (next_jid s' = int32 (next_jid s + 1)) = (r = 0)
           \<and> (r = 0 \<longrightarrow> job_list s' = snd (add_job (job_list s) (next_jid s) pid STOPPED path)
                         \<and> stdout s' = stdout s @ [msg_suspended (next_jid s) pid sg])
           \<and> (r \<noteq> 0 \<longrightarrow> job_list s' = job_list s \<and> next_jid s' = next_jid s
                 \<and> stdout s' = stdout s
                 \<and> stderr s' = stderr s
                      @ (if give_ok e then [] else [Perror ''tcsetpgrp''])
                      @ [Line ''Error: Failed to add job to job list'']
                      @ (if take_ok e then [] else [Perror ''tcsetpgrp''])))"
    if w: "waitpid_ret e = Some (WStopped sg)"
  proof (cases "fst (add_job (job_list s) (next_jid s) pid STOPPED path) = 0")
    case True
    from add_job_added[OF True] show ?thesis
      using w by (simp add: foreground_wait_def sys_defs Let_def)
  next
    case False
    from add_job_failed[OF False] show ?thesis
      using w by (simp add: foreground_wait_def sys_defs Let_def int32_succ_neq
          int32_succ_neq[symmetric])
  qed
  have rp: "(let r = fst (add_job (job_list s) (next_jid s) pid STOPPED ''fg_command'')
        in \<exists>s'. reap_event pid (WStopped sg) s = Some s'
             \<and> (next_jid s' = int32 (next_jid s + 1)) = (r = 0)
             \<and> (r = 0 \<longrightarrow> s' = s\<lparr>job_list := snd (add_job (job_list s) (next_jid s) pid STOPPED
                                                        ''fg_command''),
                                    next_jid := int32 (next_jid s + 1),
                                    stdout := stdout s @ [msg_suspended (next_jid s) pid sg]\<rparr>)
             \<and> (r \<noteq> 0 \<longrightarrow> s' = s\<lparr>stderr := stderr s @
                                   [Line ''Error: Failed to add job to job list'']\<rparr>))"
    if u: "get_job_jid (job_list s) pid = - 1" "pid = fg_pid s"
  proof (cases "fst (add_job (job_list s) (next_jid s) pid STOPPED ''fg_command'') = 0")
    case True
    from add_job_added[OF True] show ?thesis
      using u by (simp add: reap_event_def oprint_def Let_def)
  next
    case False
    from add_job_failed[OF False] show ?thesis
      using u by (simp add: reap_event_def eprint_def Let_def int32_succ_neq
          int32_succ_neq[symmetric])
  qed
  show ?thesis using bg fg rp by blast
qed

theorem counter_incremented_iff_added_witness:
  "next_jid (background_launch ''/bin/sleep'' 101 (ex_shell RUNNING)) = 3
   \<and> background_launch ''/bin/sleep'' 100 (ex_shell RUNNING)
       = (ex_shell RUNNING)\<lparr>stderr := [Line ''Error: Failed to add job to job list'']\<rparr>
   \<and> next_jid (foreground_wait (ex_env (Some (WStopped 20))) ''/bin/sleep'' 101 (ex_shell RUNNING)) = 3
   \<and> next_jid (foreground_wait (ex_env (Some (WStopped 20))) ''/bin/sleep'' 100 (ex_shell RUNNING)) = 2
   \<and> stderr (foreground_wait (ex_env (Some (WStopped 20))) ''/bin/sleep'' 100 (ex_shell RUNNING))
       = [Line ''Error: Failed to add job to job list'']
   \<and> reap_event 300 (WStopped 20)
        ((ex_shell RUNNING)\<lparr>fg_pid := 300, job_list := (job_list (ex_shell RUNNING))\<lparr>max_jobs := 1\<rparr>\<rparr>)
       = Some ((ex_shell RUNNING)\<lparr>fg_pid := 300,
                 job_list := (job_list (ex_shell RUNNING))\<lparr>max_jobs := 1\<rparr>,
                 stderr := [Line ''Error: Failed to add job to job list'']\<rparr>)"
  using counter_incremented_iff_added[where s = "ex_shell RUNNING" and pid = 101
      and path = "''/bin/sleep''" and e = "ex_env (Some (WStopped 20))" and sg = 20]
    counter_incremented_iff_added[where s = "ex_shell RUNNING" and pid = 100
      and path = "''/bin/sleep''" and e = "ex_env (Some (WStopped 20))" and sg = 20]
    counter_incremented_iff_added[where
      s = "(ex_shell RUNNING)\<lparr>fg_pid := 300, job_list := (job_list (ex_shell RUNNING))\<lparr>max_jobs := 1\<rparr>\<rparr>"
      and pid = 300 and path = "''/bin/sleep''" and e = "ex_env (Some (WStopped 20))" and sg = 20]
  by (simp add: ex_defs add_job_def get_job_jid_def Let_def int32_def)

text \<open>
  Claim C8, as stated: the job ids issued over a session are strictly increasing and
  never reissued, whatever the length of the session. \<^verbatim>\<open>next_jid\<close> is a C \<^verbatim>\<open>int\<close>: in
  the session of 2147483648 turns that each reap the previous background job and
  launch a new one, the ids issued are \<open>1, ..., 2147483647\<close> and then \<open>-2147483648\<close>,
  which is not an increasing sequence.
\<close>

theorem job_ids_wrap_around:
  "issued_jids (replicate 2147483648 ex_churn) (init_shell 8 50)
     = [1..2147483647] @ [- 2147483648]
   \<and> \<not> sorted_wrt (<) (issued_jids (replicate 2147483648 ex_churn) (init_shell 8 50))"
proof -
  let ?s = "main_loop (replicate 2147483647 ex_churn) (init_shell 8 50)"
  from churn_prefix[of 2147483647]
  have p: "job_list ?s
       = \<lparr>jobs = [\<lparr>job_jid = 2147483647, job_pid = 101, job_state = RUNNING,
                   job_command = ''/bin/sleep''\<rparr>], max_jobs = 8\<rparr>"
      "fg_pid ?s = - 1" "next_jid ?s = - 2147483648"
      "issued_jids (replicate 2147483647 ex_churn) (init_shell 8 50) = [1..2147483647]"
    by (simp_all add: int32_def)
  from churn_turn[of 2147483647 "- 2147483648" ?s] p(1,2,3)
  have l: "issued_jids [ex_churn] ?s = [- 2147483648]" by simp
  have "(2147483648::nat) = 2147483647 + 1" by simp
  then have r: "replicate 2147483648 ex_churn = replicate 2147483647 ex_churn @ [ex_churn]"
    by (simp only: replicate_add) simp
  have a: "issued_jids (replicate 2147483648 ex_churn) (init_shell 8 50)
     = [1..2147483647] @ [- 2147483648]"
    unfolding r issued_jids_append using p(4) l by simp
  have "(1::int) \<in> set [1..2147483647]" by simp
  then have "\<not> sorted_wrt (<) ([1..2147483647] @ [- 2147483648::int])"
    unfolding sorted_wrt_append by force
  with a show ?thesis by simp
qed

text \<open>
  Claim C8, amended. The job ids issued over a session start at 1, and every admission
  consumes the current value of \<^verbatim>\<open>next_jid\<close> and increments it (\<^verbatim>\<open>next_jid++\<close> on a C
  \<^verbatim>\<open>int\<close>): the ids issued are the successive values of the counter from 1 on, and
  the counter ends after them. As long as at most 2147483647 ids have been issued in
  the session, they are \<open>1, 2, 3, ...\<close> in order, strictly increasing, and none is
  issued twice, also after its job has left the table. In particular, when the first
  background job (pid 101) exits before the second (pid 102) is launched, the two
  receive the ids 1 and 2, and the table then holds job 2 alone.
\<close>

theorem job_ids_issued_in_sequence:
  "issued_jids turns (init_shell cap pgid)
     = jid_sequence 1 (length (issued_jids turns (init_shell cap pgid)))
   \<and> next_jid (main_loop turns (init_shell cap pgid))
     = ((\<lambda>x. int32 (x + 1)) ^^ length (issued_jids turns (init_shell cap pgid))) 1
   \<and> (int (length (issued_jids turns (init_shell cap pgid))) \<le> 2147483647 \<longrightarrow>
        issued_jids turns (init_shell cap pgid)
          = [1..int (length (issued_jids turns (init_shell cap pgid)))]
        \<and> sorted_wrt (<) (issued_jids turns (init_shell cap pgid))
        \<and> distinct (issued_jids turns (init_shell cap pgid)))
   \<and> issued_jids [(ex_env None, [], Some (ex_cmd True)),
                   ((ex_env None)\<lparr>fork_ret := Some 102\<rparr>, [(101, WExited 0)], Some (ex_cmd True))]
        (init_shell 8 50) = [1, 2]
   \<and> map job_jid (jobs (job_list (main_loop
        [(ex_env None, [], Some (ex_cmd True)),
         ((ex_env None)\<lparr>fork_ret := Some 102\<rparr>, [(101, WExited 0)], Some (ex_cmd True))]
        (init_shell 8 50)))) = [2]"
proof -
  let ?xs = "issued_jids turns (init_shell cap pgid)"
  have f: "issued_from 1 ?xs (next_jid (main_loop turns (init_shell cap pgid)))"
    using main_loop_from[of "init_shell cap pgid" turns] by (simp add: init_shell_def)
  have a: "?xs = jid_sequence 1 (length ?xs)"
    "next_jid (main_loop turns (init_shell cap pgid))
       = ((\<lambda>x. int32 (x + 1)) ^^ length ?xs) 1"
    using f by (simp_all add: issued_from_def)
  have b: "?xs = [1..int (length ?xs)] \<and> sorted_wrt (<) ?xs \<and> distinct ?xs"
    if le: "int (length ?xs) \<le> 2147483647"
  proof -
    have u: "?xs = [1..int (length ?xs)]" using f le by (rule issued_from_bounded)
    have "sorted_wrt (<) [1..int (length ?xs)]" "distinct [1..int (length ?xs)]" by simp_all
    with u show ?thesis by metis
  qed
  have c: "issued_jids [(ex_env None, [], Some (ex_cmd True)),
                   ((ex_env None)\<lparr>fork_ret := Some 102\<rparr>, [(101, WExited 0)], Some (ex_cmd True))]
        (init_shell 8 50) = [1, 2]"
    by code_simp
  have d: "map job_jid (jobs (job_list (main_loop
        [(ex_env None, [], Some (ex_cmd True)),
         ((ex_env None)\<lparr>fork_ret := Some 102\<rparr>, [(101, WExited 0)], Some (ex_cmd True))]
        (init_shell 8 50)))) = [2]"
    by code_simp
  show ?thesis using a b c d by blast
qed

theorem job_ids_issued_in_sequence_witness:
  "issued_jids [(ex_env None, [], Some (ex_cmd True)),
                ((ex_env None)\<lparr>fork_ret := Some 102\<rparr>, [(101, WExited 0)], Some (ex_cmd True))]
     (init_shell 8 50) = [1..2]
   \<and> next_jid (main_loop [(ex_env None, [], Some (ex_cmd True)),
                ((ex_env None)\<lparr>fork_ret := Some 102\<rparr>, [(101, WExited 0)], Some (ex_cmd True))]
     (init_shell 8 50)) = 3"
proof -
  let ?t = "[(ex_env None, [], Some (ex_cmd True)),
                ((ex_env None)\<lparr>fork_ret := Some 102\<rparr>, [(101, WExited 0)], Some (ex_cmd True))]"
  have l: "length (issued_jids ?t (init_shell 8 50)) = 2"
    by code_simp
  have i: "((\<lambda>x. int32 (x + 1)) ^^ 2) 1 = 3"
    by (simp add: numeral_2_eq_2 int32_def)
  note t = job_ids_issued_in_sequence[of ?t 8 50]
  have n: "next_jid (main_loop ?t (init_shell 8 50))
      = ((\<lambda>x. int32 (x + 1)) ^^ length (issued_jids ?t (init_shell 8 50))) 1"
    using t by (elim conjE)
  have b: "int (length (issued_jids ?t (init_shell 8 50))) \<le> 2147483647 \<longrightarrow>
        issued_jids ?t (init_shell 8 50) = [1..int (length (issued_jids ?t (init_shell 8 50)))]
        \<and> sorted_wrt (<) (issued_jids ?t (init_shell 8 50))
        \<and> distinct (issued_jids ?t (init_shell 8 50))"
    using t by (elim conjE)
  have "int (length (issued_jids ?t (init_shell 8 50))) \<le> 2147483647"
    unfolding l by simp
  with b have "issued_jids ?t (init_shell 8 50)
      = [1..int (length (issued_jids ?t (init_shell 8 50)))]" by (elim impE conjE)
  then have x: "issued_jids ?t (init_shell 8 50) = [1..2]" unfolding l by simp
  have "next_jid (main_loop ?t (init_shell 8 50)) = 3" unfolding n l i ..
  with x show ?thesis by (rule conjI)
qed

text \<open>
  The job ids of the table are positive in every state the reaper's loop can be in
  during a session in which at most 2147483647 ids have been issued: the assumption of
  the two theorems on reaper events.
\<close>

theorem session_job_ids_positive:
  assumes "int (length (issued_jids turns (init_shell cap pgid)
                  @ issued_reap evs (main_loop turns (init_shell cap pgid)))) \<le> 2147483647"
  shows "list_all (\<lambda>j. 0 < job_jid j)
     (jobs (job_list (snd (reap_loop evs reaped (main_loop turns (init_shell cap pgid))))))"
proof -
  let ?s0 = "init_shell cap pgid"
  let ?s1 = "main_loop turns ?s0"
  let ?s2 = "snd (reap_loop evs reaped ?s1)"
  let ?xs = "issued_jids turns ?s0 @ issued_reap evs ?s1"
  have "issued_from (next_jid ?s0) ?xs (next_jid ?s2)"
    using main_loop_from[of ?s0 turns] issued_reap_from[of ?s1 evs reaped]
    by (rule issued_from_append)
  then have "issued_from 1 ?xs (next_jid ?s2)" by (simp add: init_shell_def)
  then have xs: "?xs = [1..int (length ?xs)]" using assms by (rule issued_from_bounded)
  have "job_jid ` set (jobs (job_list ?s2))
      \<subseteq> job_jid ` set (jobs (job_list ?s1)) \<union> set (issued_reap evs ?s1)"
    by (rule reap_loop_jids_from)
  moreover have "job_jid ` set (jobs (job_list ?s1))
      \<subseteq> job_jid ` set (jobs (job_list ?s0)) \<union> set (issued_jids turns ?s0)"
    by (rule main_loop_jids_from)
  moreover have "jobs (job_list ?s0) = []" by (simp add: init_shell_def)
  ultimately have "job_jid ` set (jobs (job_list ?s2)) \<subseteq> set ?xs"
    unfolding set_append by auto
  then have "job_jid ` set (jobs (job_list ?s2)) \<subseteq> set [1..int (length ?xs)]"
    using xs by metis
  then have "\<forall>j\<in>set (jobs (job_list ?s2)). 0 < job_jid j" by auto
  then show ?thesis by (simp add: list_all_iff)
qed

end
